theory Spec2Isabelle
  imports Complex_Main
begin

section \<open>Risk routing and reminder synchronisation of Daily-Health-Care\<close>

text \<open>
  A shallow embedding of \<^verbatim>\<open>routing_engine.py\<close>, \<^verbatim>\<open>reminder_module.py\<close>,
  \<^verbatim>\<open>reminder_sync.py\<close> and the logging entry points of \<^verbatim>\<open>system_memory.py\<close>.

  Conventions of the embedding:
  \<^item> a Python \<^verbatim>\<open>str\<close> is a \<open>string\<close> holding its UTF-8 bytes; the Chinese literals of
    the source are written out byte by byte;
  \<^item> a Python number (int or float) read from a snapshot is a \<open>real\<close>; every comparison
    of the source is against an integer constant, so it is exact on both sides;
  \<^item> a \<^verbatim>\<open>datetime\<close> is an \<open>int\<close>, the microseconds since the epoch (naive UTC);
  \<^item> an exception is a value of \<open>error\<close>; a function that can raise after it has changed
    the state returns \<open>(error + 'a) \<times> world\<close>, so that the state at the raise is kept;
  \<^item> the collaborators outside the repository (vector store, language model, retrieval,
    \<^verbatim>\<open>datetime.isoformat\<close>) are the fields of \<open>env\<close>.
\<close>

subsection \<open>String literals of the source\<close>

text \<open>run: the message used when no macro fired (69 bytes of UTF-8).\<close>

definition generic_caution_message :: string where
  "generic_caution_message =
    [CHR 0xE6, CHR 0xA3, CHR 0x80, CHR 0xE6, CHR 0xB5, CHR 0x8B, CHR 0xE5, CHR 0x88,
     CHR 0xB0, CHR 0xE9, CHR 0xA3, CHR 0x8E, CHR 0xE9, CHR 0x99, CHR 0xA9, CHR 0xE5,
     CHR 0x8D, CHR 0x87, CHR 0xE9, CHR 0xAB, CHR 0x98, CHR 0xEF, CHR 0xBC, CHR 0x8C,
     CHR 0xE8, CHR 0xAF, CHR 0xB7, CHR 0xE4, CHR 0xBF, CHR 0x9D, CHR 0xE6, CHR 0x8C,
     CHR 0x81, CHR 0xE8, CHR 0xAD, CHR 0xA6, CHR 0xE6, CHR 0x83, CHR 0x95, CHR 0xE5,
     CHR 0xB9, CHR 0xB6, CHR 0xE5, CHR 0x8F, CHR 0x8A, CHR 0xE6, CHR 0x97, CHR 0xB6,
     CHR 0xE6, CHR 0x9F, CHR 0xA5, CHR 0xE7, CHR 0x9C, CHR 0x8B, CHR 0xE6, CHR 0x8F,
     CHR 0x90, CHR 0xE9, CHR 0x86, CHR 0x92, CHR 0xE4, CHR 0xBB, CHR 0xBB, CHR 0xE5,
     CHR 0x8A, CHR 0xA1, CHR 0xE3, CHR 0x80, CHR 0x82]"

text \<open>_heat_macro: content of the hydration reminder (54 bytes of UTF-8).\<close>

definition hydration_content :: string where
  "hydration_content =
    [CHR 0xE6, CHR 0x9C, CHR 0xAA, CHR 0xE6, CHR 0x9D, CHR 0xA5, CHR 0x20, CHR 0x31,
     CHR 0x20, CHR 0xE5, CHR 0xB0, CHR 0x8F, CHR 0xE6, CHR 0x97, CHR 0xB6, CHR 0xE5,
     CHR 0x86, CHR 0x85, CHR 0xE8, CHR 0xA1, CHR 0xA5, CHR 0xE6, CHR 0xB0, CHR 0xB4,
     CHR 0x20, CHR 0x35, CHR 0x30, CHR 0x30, CHR 0x6D, CHR 0x6C, CHR 0xEF, CHR 0xBC,
     CHR 0x8C, CHR 0xE5, CHR 0xB9, CHR 0xB6, CHR 0xE9, CHR 0x81, CHR 0xBF, CHR 0xE5,
     CHR 0x85, CHR 0x8D, CHR 0xE6, CHR 0xAD, CHR 0xA3, CHR 0xE5, CHR 0x8D, CHR 0x88,
     CHR 0xE5, CHR 0xA4, CHR 0x96, CHR 0xE5, CHR 0x87, CHR 0xBA]"

text \<open>_heat_macro: content of the family-contact reminder (51 bytes of UTF-8).\<close>

definition family_content :: string where
  "family_content =
    [CHR 0xE8, CHR 0x81, CHR 0x94, CHR 0xE7, CHR 0xB3, CHR 0xBB, CHR 0xE5, CHR 0xAE,
     CHR 0xB6, CHR 0xE5, CHR 0xB1, CHR 0x9E, CHR 0xE7, CHR 0xA1, CHR 0xAE, CHR 0xE8,
     CHR 0xAE, CHR 0xA4, CHR 0xE7, CHR 0x8A, CHR 0xB6, CHR 0xE6, CHR 0x80, CHR 0x81,
     CHR 0xEF, CHR 0xBC, CHR 0x8C, CHR 0xE5, CHR 0xA6, CHR 0x82, CHR 0xE6, CHR 0x8C,
     CHR 0x81, CHR 0xE7, CHR 0xBB, CHR 0xAD, CHR 0xE4, CHR 0xB8, CHR 0x8D, CHR 0xE9,
     CHR 0x80, CHR 0x82, CHR 0xE8, CHR 0xAF, CHR 0xB7, CHR 0xE6, CHR 0xB1, CHR 0x82,
     CHR 0xE5, CHR 0x8C, CHR 0xBB]"

text \<open>_heat_macro: the advisory sentence (113 bytes of UTF-8).\<close>

definition heat_message :: string where
  "heat_message =
    [CHR 0xF0, CHR 0x9F, CHR 0x8C, CHR 0xA1, CHR 0xEF, CHR 0xB8, CHR 0x8F, CHR 0x20,
     CHR 0xE6, CHR 0xA3, CHR 0x80, CHR 0xE6, CHR 0xB5, CHR 0x8B, CHR 0xE5, CHR 0x88,
     CHR 0xB0, CHR 0xE9, CHR 0xAB, CHR 0x98, CHR 0xE6, CHR 0xB8, CHR 0xA9, CHR 0xE9,
     CHR 0xAB, CHR 0x98, CHR 0xE5, CHR 0x8D, CHR 0xB1, CHR 0xE5, CHR 0x9C, CHR 0xBA,
     CHR 0xE6, CHR 0x99, CHR 0xAF, CHR 0xEF, CHR 0xBC, CHR 0x8C, CHR 0xE5, CHR 0xB7,
     CHR 0xB2, CHR 0xE7, CHR 0x94, CHR 0x9F, CHR 0xE6, CHR 0x88, CHR 0x90, CHR 0xE8,
     CHR 0xA1, CHR 0xA5, CHR 0xE6, CHR 0xB0, CHR 0xB4, CHR 0xE4, CHR 0xB8, CHR 0x8E,
     CHR 0xE5, CHR 0xAE, CHR 0xB6, CHR 0xE5, CHR 0xB1, CHR 0x9E, CHR 0xE8, CHR 0x81,
     CHR 0x94, CHR 0xE7, CHR 0xBB, CHR 0x9C, CHR 0xE6, CHR 0x8F, CHR 0x90, CHR 0xE9,
     CHR 0x86, CHR 0x92, CHR 0xEF, CHR 0xBC, CHR 0x8C, CHR 0xE8, CHR 0xAF, CHR 0xB7,
     CHR 0xE7, CHR 0xAB, CHR 0x8B, CHR 0xE5, CHR 0x8D, CHR 0xB3, CHR 0xE6, CHR 0x89,
     CHR 0xA7, CHR 0xE8, CHR 0xA1, CHR 0x8C, CHR 0xEF, CHR 0xBC, CHR 0x8C, CHR 0xE5,
     CHR 0xB9, CHR 0xB6, CHR 0xE4, CHR 0xBF, CHR 0x9D, CHR 0xE6, CHR 0x8C, CHR 0x81,
     CHR 0xE5, CHR 0x87, CHR 0x89, CHR 0xE7, CHR 0x88, CHR 0xBD, CHR 0xE3, CHR 0x80,
     CHR 0x82]"

text \<open>_sleep_macro: content of the wind-down reminder (74 bytes of UTF-8).\<close>

definition wind_down_content :: string where
  "wind_down_content =
    [CHR 0xE4, CHR 0xBB, CHR 0x8A, CHR 0xE6, CHR 0x99, CHR 0x9A, CHR 0x20, CHR 0x32,
     CHR 0x32, CHR 0x3A, CHR 0x30, CHR 0x30, CHR 0x20, CHR 0xE5, CHR 0x89, CHR 0x8D,
     CHR 0xE5, CHR 0xAE, CHR 0x8C, CHR 0xE6, CHR 0x88, CHR 0x90, CHR 0xE6, CHR 0x94,
     CHR 0xBE, CHR 0xE6, CHR 0x9D, CHR 0xBE, CHR 0xE6, CHR 0xB4, CHR 0xBB, CHR 0xE5,
     CHR 0x8A, CHR 0xA8, CHR 0xEF, CHR 0xBC, CHR 0x88, CHR 0xE5, CHR 0xA6, CHR 0x82,
     CHR 0xE5, CHR 0x90, CHR 0xAC, CHR 0xE9, CHR 0x9F, CHR 0xB3, CHR 0xE4, CHR 0xB9,
     CHR 0x90, CHR 0x2F, CHR 0xE4, CHR 0xBC, CHR 0xB8, CHR 0xE5, CHR 0xB1, CHR 0x95,
     CHR 0xEF, CHR 0xBC, CHR 0x89, CHR 0xEF, CHR 0xBC, CHR 0x8C, CHR 0xE5, CHR 0x87,
     CHR 0x86, CHR 0xE5, CHR 0xA4, CHR 0x87, CHR 0xE6, CHR 0x97, CHR 0xA9, CHR 0xE7,
     CHR 0x9D, CHR 0xA1]"

text \<open>_sleep_macro: content of the sleep-logging reminder (48 bytes of UTF-8).\<close>

definition sleep_log_content :: string where
  "sleep_log_content =
    [CHR 0xE8, CHR 0xAE, CHR 0xB0, CHR 0xE5, CHR 0xBD, CHR 0x95, CHR 0xE4, CHR 0xBB,
     CHR 0x8A, CHR 0xE6, CHR 0x99, CHR 0x9A, CHR 0xE7, CHR 0x9D, CHR 0xA1, CHR 0xE7,
     CHR 0x9C, CHR 0xA0, CHR 0xE6, CHR 0x97, CHR 0xB6, CHR 0xE9, CHR 0x95, CHR 0xBF,
     CHR 0xE4, CHR 0xB8, CHR 0x8E, CHR 0xE6, CHR 0x84, CHR 0x9F, CHR 0xE5, CHR 0x8F,
     CHR 0x97, CHR 0xEF, CHR 0xBC, CHR 0x8C, CHR 0xE6, CHR 0x98, CHR 0x8E, CHR 0xE6,
     CHR 0x97, CHR 0xA9, CHR 0xE7, CHR 0xA1, CHR 0xAE, CHR 0xE8, CHR 0xAE, CHR 0xA4]"

text \<open>_sleep_macro: the advisory sentence (80 bytes of UTF-8).\<close>

definition sleep_message :: string where
  "sleep_message =
    [CHR 0xF0, CHR 0x9F, CHR 0x98, CHR 0xB4, CHR 0x20, CHR 0xE8, CHR 0xBF, CHR 0x9E,
     CHR 0xE7, CHR 0xBB, CHR 0xAD, CHR 0xE7, CHR 0x9D, CHR 0xA1, CHR 0xE7, CHR 0x9C,
     CHR 0xA0, CHR 0xE4, CHR 0xB8, CHR 0x8D, CHR 0xE8, CHR 0xB6, CHR 0xB3, CHR 0xEF,
     CHR 0xBC, CHR 0x8C, CHR 0xE7, CHR 0xB3, CHR 0xBB, CHR 0xE7, CHR 0xBB, CHR 0x9F,
     CHR 0xE5, CHR 0xB7, CHR 0xB2, CHR 0xE5, CHR 0xAE, CHR 0x89, CHR 0xE6, CHR 0x8E,
     CHR 0x92, CHR 0xE7, CHR 0x9D, CHR 0xA1, CHR 0xE7, CHR 0x9C, CHR 0xA0, CHR 0xE6,
     CHR 0x94, CHR 0xB9, CHR 0xE5, CHR 0x96, CHR 0x84, CHR 0xE6, CHR 0x8F, CHR 0x90,
     CHR 0xE9, CHR 0x86, CHR 0x92, CHR 0xEF, CHR 0xBC, CHR 0x8C, CHR 0xE8, CHR 0xAF,
     CHR 0xB7, CHR 0xE6, CHR 0x8C, CHR 0x89, CHR 0xE6, CHR 0x97, CHR 0xB6, CHR 0xE6,
     CHR 0x89, CHR 0xA7, CHR 0xE8, CHR 0xA1, CHR 0x8C, CHR 0xE3, CHR 0x80, CHR 0x82]"

text \<open>_run_rag_path: the text before the exception in the fallback message (50 bytes of UTF-8).\<close>

definition fallback_prefix :: string where
  "fallback_prefix =
    [CHR 0xE6, CHR 0x97, CHR 0xA0, CHR 0xE6, CHR 0xB3, CHR 0x95, CHR 0xE8, CHR 0xB0,
     CHR 0x83, CHR 0xE7, CHR 0x94, CHR 0xA8, CHR 0xE6, CHR 0xA8, CHR 0xA1, CHR 0xE5,
     CHR 0x9E, CHR 0x8B, CHR 0xEF, CHR 0xBC, CHR 0x8C, CHR 0xE6, CHR 0x94, CHR 0xB9,
     CHR 0xE4, CHR 0xB8, CHR 0xBA, CHR 0xE8, CHR 0xA7, CHR 0x84, CHR 0xE5, CHR 0x88,
     CHR 0x99, CHR 0xE8, CHR 0xBE, CHR 0x93, CHR 0xE5, CHR 0x87, CHR 0xBA, CHR 0xE3,
     CHR 0x80, CHR 0x82, CHR 0xE5, CHR 0x8E, CHR 0x9F, CHR 0xE5, CHR 0x9B, CHR 0xA0,
     CHR 0x3A, CHR 0x20]"

text \<open>_run_rag_path: the placeholder for an empty prompt field (3 bytes of UTF-8).\<close>

definition none_text :: string where
  "none_text =
    [CHR 0xE6, CHR 0x97, CHR 0xA0]"

text \<open>_run_template_path: the sentence without weather warnings (57 bytes of UTF-8).\<close>

definition template_base_message :: string where
  "template_base_message =
    [CHR 0xE4, CHR 0xBB, CHR 0x8A, CHR 0xE6, CHR 0x97, CHR 0xA5, CHR 0xE7, CHR 0x8A,
     CHR 0xB6, CHR 0xE6, CHR 0x80, CHR 0x81, CHR 0xE5, CHR 0xB9, CHR 0xB3, CHR 0xE7,
     CHR 0xA8, CHR 0xB3, CHR 0xEF, CHR 0xBC, CHR 0x8C, CHR 0xE7, CHR 0xBB, CHR 0xA7,
     CHR 0xE7, CHR 0xBB, CHR 0xAD, CHR 0xE4, CHR 0xBF, CHR 0x9D, CHR 0xE6, CHR 0x8C,
     CHR 0x81, CHR 0xE8, CHR 0xA7, CHR 0x84, CHR 0xE5, CHR 0xBE, CHR 0x8B, CHR 0xE4,
     CHR 0xBD, CHR 0x9C, CHR 0xE6, CHR 0x81, CHR 0xAF, CHR 0xE5, CHR 0x92, CHR 0x8C,
     CHR 0xE8, CHR 0xA1, CHR 0xA5, CHR 0xE6, CHR 0xB0, CHR 0xB4, CHR 0xE3, CHR 0x80,
     CHR 0x82]"

text \<open>_run_template_path: the sentence with weather warnings (51 bytes of UTF-8).\<close>

definition template_caution_message :: string where
  "template_caution_message =
    [CHR 0xE5, CHR 0x87, CHR 0xBA, CHR 0xE7, CHR 0x8E, CHR 0xB0, CHR 0xE8, CHR 0xBD,
     CHR 0xBB, CHR 0xE5, CHR 0xBE, CHR 0xAE, CHR 0xE5, CHR 0xA4, CHR 0xA9, CHR 0xE6,
     CHR 0xB0, CHR 0x94, CHR 0xE6, CHR 0xB3, CHR 0xA2, CHR 0xE5, CHR 0x8A, CHR 0xA8,
     CHR 0xEF, CHR 0xBC, CHR 0x8C, CHR 0xE8, CHR 0xAF, CHR 0xB7, CHR 0xE7, CHR 0x95,
     CHR 0x99, CHR 0xE6, CHR 0x84, CHR 0x8F, CHR 0xE7, CHR 0xB3, CHR 0xBB, CHR 0xE7,
     CHR 0xBB, CHR 0x9F, CHR 0xE6, CHR 0x8F, CHR 0x90, CHR 0xE9, CHR 0x86, CHR 0x92,
     CHR 0xE3, CHR 0x80, CHR 0x82]"

text \<open>_run_template_path: the clause appended for a low step count (43 bytes of UTF-8).\<close>

definition activity_clause :: string where
  "activity_clause =
    [CHR 0x20, CHR 0xE9, CHR 0x80, CHR 0x82, CHR 0xE9, CHR 0x87, CHR 0x8F, CHR 0xE6,
     CHR 0xB4, CHR 0xBB, CHR 0xE5, CHR 0x8A, CHR 0xA8, CHR 0xE5, CHR 0x8F, CHR 0xAF,
     CHR 0xE5, CHR 0xB8, CHR 0xAE, CHR 0xE5, CHR 0x8A, CHR 0xA9, CHR 0xE7, CHR 0xBB,
     CHR 0xB4, CHR 0xE6, CHR 0x8C, CHR 0x81, CHR 0xE5, CHR 0xBF, CHR 0x83, CHR 0xE8,
     CHR 0x82, CHR 0xBA, CHR 0xE5, CHR 0x8A, CHR 0x9F, CHR 0xE8, CHR 0x83, CHR 0xBD,
     CHR 0xE3, CHR 0x80, CHR 0x82]"

definition DEFAULT_USER_ID :: string where
  "DEFAULT_USER_ID = ''user_001''"

subsection \<open>Snapshots and risk evaluation (routing\_engine.py)\<close>

text \<open>
  The state dictionary. \<^verbatim>\<open>state.get("weather", {})\<close> and \<^verbatim>\<open>state.get("vitals", {})\<close>
  make an absent sub-dictionary the same as one whose keys are all absent, so the fields
  are flattened. For a number, \<open>None\<close> is an absent key or a Python \<^verbatim>\<open>None\<close>, which
  \<^verbatim>\<open>get\<close> does not tell apart. The other keys are typed as the state builders of
  \<^verbatim>\<open>watch_backend.py\<close> fill them: \<^verbatim>\<open>user_id\<close> and \<^verbatim>\<open>notes\<close>, where present, are a
  \<^verbatim>\<open>str\<close>, so that \<open>None\<close> is the absent key only, and \<^verbatim>\<open>warnings\<close> is a list, empty
  where the key is absent. A state that holds a Python \<^verbatim>\<open>None\<close> under \<^verbatim>\<open>user_id\<close> or
  \<^verbatim>\<open>warnings\<close> is not a value of this type.
\<close>

record snapshot =
  s_user_id :: "string option"
  s_timestamp :: string
  s_temperature :: "real option"
  s_humidity :: "real option"
  s_warnings :: "string list"
  s_heart_rate :: "real option"
  s_steps :: "real option"
  s_sleep :: "real option"
  s_notes :: "string option"

text \<open>
  The entries of \<^verbatim>\<open>reasons\<close>. Each constructor stands for one f-string of
  \<^verbatim>\<open>evaluate\<close> and carries the number that the f-string formats.
\<close>

datatype reason =
    HighTemp real
  | WarmTemp real
  | LowTemp real
  | HumidityReason real
  | WarningReason
  | HighHeartRate real
  | LowHeartRate real
  | ShortSleep real

record risk_evaluation =
  ev_score :: int
  ev_level :: string
  ev_reasons :: "reason list"

text \<open>
  \<^verbatim>\<open>evaluate\<close>. The tests \<^verbatim>\<open>humidity and humidity >= 90\<close>,
  \<^verbatim>\<open>heart_rate and heart_rate >= 110\<close> and \<^verbatim>\<open>sleep and sleep < 6\<close> use Python's truth
  value of the number first: \<^verbatim>\<open>None\<close> and \<^verbatim>\<open>0\<close> are both false, so the comparison
  is only reached for a number other than zero. The temperature is tested with
  \<^verbatim>\<open>temp is not None\<close>, so a temperature of zero is compared.
\<close>

definition evaluate :: "snapshot \<Rightarrow> risk_evaluation" where
  "evaluate st =
    (let temp = s_temperature st;
         humidity = s_humidity st;
         warnings = s_warnings st;
         heart_rate = s_heart_rate st;
         sleep = s_sleep st;
         (score, reasons) = (0, []);
         (score, reasons) =
           (case temp of
              None \<Rightarrow> (score, reasons)
            | Some t \<Rightarrow>
                if t \<ge> 33 then (score + 4, reasons @ [HighTemp t])
                else if t \<ge> 30 then (score + 2, reasons @ [WarmTemp t])
                else if t \<le> 10 then (score + 2, reasons @ [LowTemp t])
                else (score, reasons));
         (score, reasons) =
           (case humidity of
              None \<Rightarrow> (score, reasons)
            | Some h \<Rightarrow>
                if h \<noteq> 0 \<and> h \<ge> 90 then (score + 1, reasons @ [HumidityReason h])
                else (score, reasons));
         (score, reasons) =
           (if ''WHOT'' \<in> set warnings \<or> ''WRAINB'' \<in> set warnings
            then (score + 3, reasons @ [WarningReason])
            else (score, reasons));
         (score, reasons) =
           (case heart_rate of
              None \<Rightarrow> (score, reasons)
            | Some h \<Rightarrow>
                if h \<noteq> 0 \<and> h \<ge> 110 then (score + 3, reasons @ [HighHeartRate h])
                else if h \<noteq> 0 \<and> h \<le> 50 then (score + 2, reasons @ [LowHeartRate h])
                else (score, reasons));
         (score, reasons) =
           (case sleep of
              None \<Rightarrow> (score, reasons)
            | Some s \<Rightarrow>
                if s \<noteq> 0 \<and> s < 6 then (score + 2, reasons @ [ShortSleep s])
                else (score, reasons));
         level = (if score \<ge> 7 then ''high'' else if score \<ge> 4 then ''medium'' else ''low'')
     in \<lparr>ev_score = score, ev_level = level, ev_reasons = reasons\<rparr>)"

subsection \<open>Exceptions, reminders and the world\<close>

text \<open>
  The exceptions that the modelled code can meet, all subclasses of \<^verbatim>\<open>Exception\<close>, each with
  the text that \<^verbatim>\<open>str(exc)\<close> gives. \<open>CollaboratorError\<close> is any exception raised by a
  collaborator outside the repository (a timeout, a provider error).
\<close>

datatype error =
    TypeError string
  | AttributeError string
  | CollaboratorError string

fun error_text :: "error \<Rightarrow> string" where
  "error_text (TypeError t) = t"
| "error_text (AttributeError t) = t"
| "error_text (CollaboratorError t) = t"

text \<open>
  The dataclass \<^verbatim>\<open>Reminder\<close>, one row of the table \<^verbatim>\<open>reminders\<close>. An id is a rowid of
  SQLite, a 64-bit integer; the bound is not modelled. Only a remote message can name an
  id beyond it: the \<^verbatim>\<open>UPDATE\<close> then raises an \<^verbatim>\<open>OverflowError\<close> where the model finds no
  row and raises the \<^verbatim>\<open>TypeError\<close> of \<open>from_row\<close>, with the same state in both.
\<close>

record reminder =
  r_id :: int
  r_user_id :: string
  r_content :: string
  r_severity :: string
  r_due_time :: "string option"
  r_repeat_rule :: "string option"
  r_status :: string
  r_tags :: "string option"
  r_created_at :: string

text \<open>
  A document written to the short-term memory by \<^verbatim>\<open>add_event\<close>. The content constructors
  stand for the f-strings of \<^verbatim>\<open>log_reminder_event\<close> and \<^verbatim>\<open>route\<close> and carry the values
  they format. The \<^verbatim>\<open>created_at\<close> entry of the metadata is left out.
\<close>

datatype log_content =
    ReminderLog int string "string option"
  | RoutingRequestLog string "reason list"
  | RoutingResultLog string string

datatype log_extra =
    NoExtra
  | ReminderExtra int string
  | LevelExtra string

record document =
  d_user_id :: string
  d_content :: log_content
  d_event_type :: string
  d_importance :: real
  d_extra :: log_extra

text \<open>
  A message handed to \<^verbatim>\<open>client.publish\<close> by \<^verbatim>\<open>ReminderMQTTPublisher.publish\<close>
  (\<^verbatim>\<open>published_at\<close> is left out).
\<close>

record sync_event =
  se_event :: string
  se_reminder :: reminder
  se_source :: string

record publisher =
  pub_available :: bool
  pub_source :: string

text \<open>
  The mutable state: the rows of the table in rowid order, the counter that
  \<^verbatim>\<open>AUTOINCREMENT\<close> keeps, the text that \<^verbatim>\<open>CURRENT_TIMESTAMP\<close> gives, the documents handed
  to the memory so far, the messages handed to the channel so far, and the number of
  \<^verbatim>\<open>datetime.utcnow()\<close> readings taken by the macros and the sweep so far.
\<close>

record world =
  w_rows :: "reminder list"
  w_seq :: int
  w_db_time :: string
  w_memlog :: "document list"
  w_outbox :: "sync_event list"
  w_ticks :: nat

text \<open>What \<^verbatim>\<open>MultiLayerMemory.retrieve\<close> returns, with the page contents of the documents.\<close>

record retrieved_context =
  knowledge_snippets :: "string list"
  short_term_memory :: "string list"
  user_profile :: "string option"

text \<open>
  The prompt variables of \<^verbatim>\<open>_run_rag_path\<close>. The entry \<^verbatim>\<open>state\<close> is the JSON text of the
  snapshot in the source; the snapshot itself stands for it here.
\<close>

record rag_payload =
  p_state :: snapshot
  p_knowledge :: string
  p_short_term :: string
  p_profile :: string

text \<open>
  The configuration and the collaborators outside the repository:
  \<^item> \<open>e_publisher\<close>: the manager's publisher, \<open>None\<close> for \<^verbatim>\<open>enable_mqtt=False\<close>;
  \<^item> \<open>e_clock n\<close>: the value of the \<open>n\<close>-th reading of \<^verbatim>\<open>datetime.utcnow()\<close>;
  \<^item> \<open>e_isoformat\<close>: \<^verbatim>\<open>datetime.isoformat\<close>;
  \<^item> \<open>e_mem_fault log d\<close>: the exception, if any, with which the vector store behind
    \<^verbatim>\<open>add_event\<close> answers the document \<open>d\<close> after the documents \<open>log\<close>;
  \<^item> \<open>e_retrieve\<close>: \<^verbatim>\<open>MultiLayerMemory.retrieve\<close>, which searches the vector stores;
  \<^item> \<open>e_llm\<close>: the prompt chain, returning the content of the response or raising.
\<close>

record env =
  e_publisher :: "publisher option"
  e_clock :: "nat \<Rightarrow> int"
  e_isoformat :: "int \<Rightarrow> string"
  e_mem_fault :: "document list \<Rightarrow> document \<Rightarrow> error option"
  e_retrieve :: "document list \<Rightarrow> snapshot \<Rightarrow> string \<Rightarrow> error + retrieved_context"
  e_llm :: "rag_payload \<Rightarrow> error + string"

text \<open>Sequencing of two steps: an exception of the first ends the run with its state.\<close>

definition on_ok ::
  "(error + 'a) \<times> world \<Rightarrow> ('a \<Rightarrow> world \<Rightarrow> (error + 'b) \<times> world) \<Rightarrow> (error + 'b) \<times> world" where
  "on_ok r f = (case r of (Inl e, w) \<Rightarrow> (Inl e, w) | (Inr x, w) \<Rightarrow> f x w)"

definition utcnow :: "env \<Rightarrow> world \<Rightarrow> int \<times> world" where
  "utcnow env w = (e_clock env (w_ticks w), w\<lparr>w_ticks := Suc (w_ticks w)\<rparr>)"

fun str_join :: "string \<Rightarrow> string list \<Rightarrow> string" where
  "str_join sep [] = []"
| "str_join sep [x] = x"
| "str_join sep (x # y # ys) = x @ sep @ str_join sep (y # ys)"

subsection \<open>The short-term memory (system\_memory.py)\<close>

text \<open>
  \<^verbatim>\<open>add_event\<close> builds the document and hands it to the vector store, which embeds and
  persists it; an exception of the store is not caught and leaves \<^verbatim>\<open>add_event\<close>.
\<close>

definition add_event :: "env \<Rightarrow> world \<Rightarrow> document \<Rightarrow> (error + unit) \<times> world" where
  "add_event env w d =
    (let w' = w\<lparr>w_memlog := w_memlog w @ [d]\<rparr>
     in case e_mem_fault env (w_memlog w) d of
          Some e \<Rightarrow> (Inl e, w')
        | None \<Rightarrow> (Inr (), w'))"

text \<open>The document that \<^verbatim>\<open>log_reminder_event\<close> builds.\<close>

definition reminder_document :: "string \<Rightarrow> int \<Rightarrow> string \<Rightarrow> string option \<Rightarrow> document" where
  "reminder_document user_id reminder_id status note =
    \<lparr>d_user_id = user_id,
     d_content = ReminderLog reminder_id status
       (case note of None \<Rightarrow> None | Some n \<Rightarrow> if n = [] then None else Some n),
     d_event_type = ''reminder_event'',
     d_importance = (if status \<in> {''ignored'', ''overdue''} then 3 / 2 else 1),
     d_extra = ReminderExtra reminder_id status\<rparr>"

definition log_reminder_event ::
  "env \<Rightarrow> world \<Rightarrow> string \<Rightarrow> int \<Rightarrow> string \<Rightarrow> string option \<Rightarrow> (error + unit) \<times> world" where
  "log_reminder_event env w user_id reminder_id status note =
    add_event env w (reminder_document user_id reminder_id status note)"

subsection \<open>The reminder store (reminder\_module.py)\<close>

definition publish :: "publisher \<Rightarrow> world \<Rightarrow> reminder \<Rightarrow> string \<Rightarrow> world" where
  "publish p w reminder event =
    (if \<not> pub_available p then w
     else w\<lparr>w_outbox := w_outbox w @
            [\<lparr>se_event = event, se_reminder = reminder, se_source = pub_source p\<rparr>]\<rparr>)"

text \<open>
  The rowid of an \<^verbatim>\<open>INTEGER PRIMARY KEY AUTOINCREMENT\<close> column: one more than the largest
  rowid the table has ever held.
\<close>

definition new_rowid :: "reminder list \<Rightarrow> int \<Rightarrow> int" where
  "new_rowid rows seq = fold max (map r_id rows) seq + 1"

text \<open>\<^verbatim>\<open>SELECT * FROM reminders WHERE id = ?\<close> followed by \<^verbatim>\<open>fetchone()\<close>.\<close>

definition select_by_id :: "reminder list \<Rightarrow> int \<Rightarrow> reminder option" where
  "select_by_id rows i = find (\<lambda>r. r_id r = i) rows"

text \<open>
  \<^verbatim>\<open>Reminder.from_row\<close> subscripts the row; on \<^verbatim>\<open>None\<close> (no such id) that raises a
  \<^verbatim>\<open>TypeError\<close>.
\<close>

definition missing_row_error :: error where
  "missing_row_error =
    TypeError ([CHR 0x27] @ ''NoneType'' @ [CHR 0x27] @ '' object is not subscriptable'')"

definition from_row :: "reminder option \<Rightarrow> error + reminder" where
  "from_row row =
    (case row of
       None \<Rightarrow> Inl missing_row_error
     | Some r \<Rightarrow> Inr r)"

text \<open>
  The \<^verbatim>\<open>INSERT\<close> statement of \<^verbatim>\<open>create_reminder\<close>: the columns \<^verbatim>\<open>status\<close> and
  \<^verbatim>\<open>created_at\<close> take their defaults. The result is the inserted row, whose \<open>r_id\<close> is
  \<^verbatim>\<open>cur.lastrowid\<close>, and the new state.
\<close>

definition insert_reminder ::
  "world \<Rightarrow> string \<Rightarrow> string \<Rightarrow> string \<Rightarrow> string option \<Rightarrow> string option \<Rightarrow>
   string option \<Rightarrow> reminder \<times> world" where
  "insert_reminder w user_id content severity due_str repeat_rule tag_str =
    (let reminder_id = new_rowid (w_rows w) (w_seq w);
         row = \<lparr>r_id = reminder_id, r_user_id = user_id, r_content = content,
                r_severity = severity, r_due_time = due_str, r_repeat_rule = repeat_rule,
                r_status = ''pending'', r_tags = tag_str, r_created_at = w_db_time w\<rparr>
     in (row, w\<lparr>w_rows := w_rows w @ [row], w_seq := reminder_id\<rparr>))"

text \<open>\<^verbatim>\<open>",".join(tags) if tags else None\<close>.\<close>

definition tags_text :: "string list option \<Rightarrow> string option" where
  "tags_text tags =
    (case tags of
       None \<Rightarrow> None
     | Some ts \<Rightarrow> if ts = [] then None else Some (str_join '','' ts))"

definition create_reminder ::
  "env \<Rightarrow> world \<Rightarrow> string \<Rightarrow> string \<Rightarrow> string \<Rightarrow> int option \<Rightarrow> string option \<Rightarrow>
   string list option \<Rightarrow> (error + reminder) \<times> world" where
  "create_reminder env w content user_id severity due_time repeat_rule tags =
    (let due_str = map_option (e_isoformat env) due_time;
         tag_str = tags_text tags;
         (inserted, w1) = insert_reminder w user_id content severity due_str repeat_rule tag_str;
         reminder_id = r_id inserted
     in on_ok (from_row (select_by_id (w_rows w1) reminder_id), w1) (\<lambda>reminder w1.
        on_ok (log_reminder_event env w1 user_id (r_id reminder) ''created'' (Some content))
          (\<lambda>_ w2.
        (Inr reminder,
         case e_publisher env of
           None \<Rightarrow> w2
         | Some p \<Rightarrow> publish p w2 reminder ''created''))))"

text \<open>\<^verbatim>\<open>UPDATE reminders SET status = ? WHERE id = ?\<close>.\<close>

definition set_status_where_id :: "reminder list \<Rightarrow> string \<Rightarrow> int \<Rightarrow> reminder list" where
  "set_status_where_id rows status reminder_id =
    map (\<lambda>r. if r_id r = reminder_id then r\<lparr>r_status := status\<rparr> else r) rows"

definition update_status ::
  "env \<Rightarrow> world \<Rightarrow> int \<Rightarrow> string \<Rightarrow> string option \<Rightarrow> string \<Rightarrow> bool \<Rightarrow>
   (error + reminder) \<times> world" where
  "update_status env w reminder_id status note user_id propagate_mqtt =
    (let w1 = w\<lparr>w_rows := set_status_where_id (w_rows w) status reminder_id\<rparr>
     in on_ok (from_row (select_by_id (w_rows w1) reminder_id), w1) (\<lambda>reminder w1.
        on_ok (log_reminder_event env w1 user_id reminder_id status note) (\<lambda>_ w2.
        (Inr reminder,
         case e_publisher env of
           None \<Rightarrow> w2
         | Some p \<Rightarrow> if propagate_mqtt then publish p w2 reminder status else w2))))"

text \<open>
  The comparison of two \<^verbatim>\<open>TEXT\<close> values by SQLite (\<^verbatim>\<open>BINARY\<close> collation): byte by
  byte, a proper prefix first.
\<close>

fun text_le :: "string \<Rightarrow> string \<Rightarrow> bool" where
  "text_le [] ys = True"
| "text_le (x # xs) [] = False"
| "text_le (x # xs) (y # ys) =
     ((of_char x :: nat) < of_char y \<or> (x = y \<and> text_le xs ys))"

text \<open>
  The \<^verbatim>\<open>WHERE\<close> clause of the sweep:
  \<^verbatim>\<open>status = 'pending' AND due_time IS NOT NULL AND due_time <= ?\<close>.
\<close>

definition is_due :: "string \<Rightarrow> reminder \<Rightarrow> bool" where
  "is_due iso_now r =
    (r_status r = ''pending'' \<and>
     (case r_due_time r of None \<Rightarrow> False | Some d \<Rightarrow> text_le d iso_now))"

text \<open>
  The order in which the rows of the sweep come back. The \<^verbatim>\<open>SELECT\<close> has no
  \<^verbatim>\<open>ORDER BY\<close>; SQLite answers its \<^verbatim>\<open>WHERE\<close> clause through the index
  \<^verbatim>\<open>idx_reminders_due\<close> on \<^verbatim>\<open>(status, due_time)\<close>, so the rows of the one status come in
  the order of their due time, as texts, and rows of equal due time in the order of
  their rowid.
\<close>

definition due_text :: "reminder \<Rightarrow> string" where
  "due_text r = (case r_due_time r of None \<Rightarrow> [] | Some d \<Rightarrow> d)"

definition index_le :: "reminder \<Rightarrow> reminder \<Rightarrow> bool" where
  "index_le a b =
    (\<not> text_le (due_text b) (due_text a) \<or> (due_text a = due_text b \<and> r_id a \<le> r_id b))"

fun insert_index :: "reminder \<Rightarrow> reminder list \<Rightarrow> reminder list" where
  "insert_index r [] = [r]"
| "insert_index r (x # xs) = (if index_le r x then r # x # xs else x # insert_index r xs)"

definition index_order :: "reminder list \<Rightarrow> reminder list" where
  "index_order rows = foldr insert_index rows []"

text \<open>The loop of \<^verbatim>\<open>trigger_due_reminders\<close> over the selected reminders.\<close>

fun trigger_each :: "env \<Rightarrow> world \<Rightarrow> reminder list \<Rightarrow> (error + unit) \<times> world" where
  "trigger_each env w [] = (Inr (), w)"
| "trigger_each env w (reminder # rest) =
     on_ok (update_status env w (r_id reminder) ''triggered'' None (r_user_id reminder) True)
       (\<lambda>_ w1. trigger_each env w1 rest)"

definition trigger_due_reminders ::
  "env \<Rightarrow> world \<Rightarrow> int option \<Rightarrow> (error + reminder list) \<times> world" where
  "trigger_due_reminders env w now =
    (let (now, w0) = (case now of None \<Rightarrow> utcnow env w | Some t \<Rightarrow> (t, w));
         iso_now = e_isoformat env now;
         reminders = index_order (filter (is_due iso_now) (w_rows w0))
     in on_ok (trigger_each env w0 reminders) (\<lambda>_ w1. (Inr reminders, w1)))"

definition get_reminders_by_ids :: "world \<Rightarrow> int list \<Rightarrow> reminder list" where
  "get_reminders_by_ids w ids =
    (if ids = [] then [] else filter (\<lambda>r. r_id r \<in> set ids) (w_rows w))"

subsection \<open>Care macros (routing\_engine.py, CareMacroEngine)\<close>

record macro =
  m_message :: string
  m_reminders :: "reminder list"

datatype evidence =
    RagEvidence rag_payload
  | TemplateEvidence "reason list"

text \<open>
  The dictionary that every path returns. The keys \<^verbatim>\<open>reminder_ids\<close> (macro path) and
  \<^verbatim>\<open>evidence\<close> (the other two paths) are \<open>None\<close> where the path does not set them.
\<close>

record route_result =
  rr_route :: string
  rr_risk_level :: string
  rr_message :: string
  rr_reminder_ids :: "int list option"
  rr_evidence :: "evidence option"

text \<open>\<^verbatim>\<open>timedelta\<close> values and the length of a day, in microseconds.\<close>

definition minutes :: "int \<Rightarrow> int" where
  "minutes n = n * 60000000"

definition hours :: "int \<Rightarrow> int" where
  "hours n = n * 3600000000"

definition days :: "int \<Rightarrow> int" where
  "days n = n * 86400000000"

text \<open>\<^verbatim>\<open>now.replace(hour=22, minute=0, second=0, microsecond=0)\<close>.\<close>

definition replace_2200 :: "int \<Rightarrow> int" where
  "replace_2200 now = (now div days 1) * days 1 + hours 22"

definition heat_macro :: "env \<Rightarrow> world \<Rightarrow> string \<Rightarrow> (error + macro) \<times> world" where
  "heat_macro env w user_id =
    (let (now, w0) = utcnow env w
     in on_ok (create_reminder env w0 hydration_content user_id ''high''
                 (Some (now + minutes 30)) None (Some [''heat'', ''hydration''])) (\<lambda>r1 w1.
        on_ok (create_reminder env w1 family_content user_id ''high''
                 (Some (now + hours 1)) None (Some [''family'', ''safety''])) (\<lambda>r2 w2.
        (Inr \<lparr>m_message = heat_message, m_reminders = [r1, r2]\<rparr>, w2))))"

definition sleep_macro :: "env \<Rightarrow> world \<Rightarrow> string \<Rightarrow> (error + macro) \<times> world" where
  "sleep_macro env w user_id =
    (let (now, w0) = utcnow env w;
         evening = replace_2200 now;
         evening = (if evening \<le> now then evening + days 1 else evening)
     in on_ok (create_reminder env w0 wind_down_content user_id ''medium''
                 (Some evening) None (Some [''sleep'', ''routine''])) (\<lambda>r1 w1.
        on_ok (create_reminder env w1 sleep_log_content user_id ''low''
                 (Some (now + hours 12)) None (Some [''sleep'', ''tracking''])) (\<lambda>r2 w2.
        (Inr \<lparr>m_message = sleep_message, m_reminders = [r1, r2]\<rparr>, w2))))"

text \<open>
  The two tests of \<^verbatim>\<open>run\<close>:
  \<^verbatim>\<open>temperature and temperature >= 33 or "WHOT" in warnings\<close> and
  \<^verbatim>\<open>vitals.get("sleep") and vitals["sleep"] < 6\<close>, with Python's truth value of the number
  as in \<open>evaluate\<close>.
\<close>

definition heat_test :: "snapshot \<Rightarrow> bool" where
  "heat_test st =
    ((case s_temperature st of None \<Rightarrow> False | Some t \<Rightarrow> t \<noteq> 0 \<and> t \<ge> 33)
     \<or> ''WHOT'' \<in> set (s_warnings st))"

definition sleep_test :: "snapshot \<Rightarrow> bool" where
  "sleep_test st = (case s_sleep st of None \<Rightarrow> False | Some s \<Rightarrow> s \<noteq> 0 \<and> s < 6)"

text \<open>
  \<^verbatim>\<open>state.get("user_id", DEFAULT_USER_ID)\<close>: the default stands in for an absent key; a
  present \<^verbatim>\<open>user_id\<close> is a \<^verbatim>\<open>str\<close> by the type of \<open>snapshot\<close>.
\<close>

definition state_user_id :: "snapshot \<Rightarrow> string" where
  "state_user_id st = (case s_user_id st of None \<Rightarrow> DEFAULT_USER_ID | Some u \<Rightarrow> u)"

definition run :: "env \<Rightarrow> world \<Rightarrow> risk_evaluation \<Rightarrow> snapshot \<Rightarrow> (error + route_result) \<times> world" where
  "run env w evaluation st =
    (let user_id = state_user_id st
     in on_ok (if heat_test st
               then on_ok (heat_macro env w user_id) (\<lambda>m w1. (Inr [m], w1))
               else (Inr [], w)) (\<lambda>macros w1.
        on_ok (if sleep_test st
               then on_ok (sleep_macro env w1 user_id) (\<lambda>m w2. (Inr (macros @ [m]), w2))
               else (Inr macros, w1)) (\<lambda>macros w2.
        (let macros = (if macros = []
                       then [\<lparr>m_message = generic_caution_message, m_reminders = []\<rparr>]
                       else macros);
             final_message = str_join [CHR 0x0A] (map m_message macros);
             reminder_ids = concat (map (\<lambda>m. map r_id (m_reminders m)) macros)
         in (Inr \<lparr>rr_route = ''macro'', rr_risk_level = ev_level evaluation,
                  rr_message = final_message, rr_reminder_ids = Some reminder_ids,
                  rr_evidence = None\<rparr>, w2)))))"

subsection \<open>The router (routing\_engine.py, RiskRouter)\<close>

text \<open>
  The UTF-8 encodings of the characters that \<^verbatim>\<open>str.strip()\<close> removes: those for which
  \<^verbatim>\<open>str.isspace()\<close> holds.
\<close>

definition whitespace_codes :: "string list" where
  "whitespace_codes =
    [[CHR 0x09], [CHR 0x0A], [CHR 0x0B], [CHR 0x0C], [CHR 0x0D],
     [CHR 0x1C], [CHR 0x1D], [CHR 0x1E], [CHR 0x1F], [CHR 0x20],
     [CHR 0xC2, CHR 0x85], [CHR 0xC2, CHR 0xA0], [CHR 0xE1, CHR 0x9A, CHR 0x80],
     [CHR 0xE2, CHR 0x80, CHR 0x80], [CHR 0xE2, CHR 0x80, CHR 0x81],
     [CHR 0xE2, CHR 0x80, CHR 0x82], [CHR 0xE2, CHR 0x80, CHR 0x83],
     [CHR 0xE2, CHR 0x80, CHR 0x84], [CHR 0xE2, CHR 0x80, CHR 0x85],
     [CHR 0xE2, CHR 0x80, CHR 0x86], [CHR 0xE2, CHR 0x80, CHR 0x87],
     [CHR 0xE2, CHR 0x80, CHR 0x88], [CHR 0xE2, CHR 0x80, CHR 0x89],
     [CHR 0xE2, CHR 0x80, CHR 0x8A], [CHR 0xE2, CHR 0x80, CHR 0xA8],
     [CHR 0xE2, CHR 0x80, CHR 0xA9], [CHR 0xE2, CHR 0x80, CHR 0xAF],
     [CHR 0xE2, CHR 0x81, CHR 0x9F], [CHR 0xE3, CHR 0x80, CHR 0x80]]"

text \<open>Removing the listed codes from the front of a text, for as long as one is there.\<close>

function lstrip_codes :: "string list \<Rightarrow> string \<Rightarrow> string" where
  "lstrip_codes codes s =
    (case find (\<lambda>p. p \<noteq> [] \<and> take (length p) s = p) codes of
       None \<Rightarrow> s
     | Some p \<Rightarrow> lstrip_codes codes (drop (length p) s))"
  by pat_completeness auto
termination
proof (relation "measure (\<lambda>(codes, s). length s)")
  show "wf (measure (\<lambda>(codes, s). length s))"
    by simp
next
  fix codes :: "string list" and s p :: string
  assume "find (\<lambda>p. p \<noteq> [] \<and> take (length p) s = p) codes = Some p"
  then have nonempty: "p \<noteq> []" and front: "take (length p) s = p"
    by (auto simp: find_Some_iff)
  have "length (take (length p) s) = length p"
    using front by simp
  then have "length p \<le> length s"
    by simp
  moreover have "0 < length p"
    using nonempty by simp
  ultimately have "length s - length p < length s"
    by linarith
  then show "((codes, drop (length p) s), (codes, s)) \<in> measure (\<lambda>(codes, s). length s)"
    by simp
qed

declare lstrip_codes.simps [simp del]

text \<open>The same from the end of a text: the reversed codes from the front of the reversed text.\<close>

definition rstrip_codes :: "string list \<Rightarrow> string \<Rightarrow> string" where
  "rstrip_codes codes s = rev (lstrip_codes (map rev codes) (rev s))"

definition py_strip :: "string \<Rightarrow> string" where
  "py_strip s = rstrip_codes whitespace_codes (lstrip_codes whitespace_codes s)"

definition or_none_text :: "string \<Rightarrow> string" where
  "or_none_text s = (if s = [] then none_text else s)"

definition build_payload :: "snapshot \<Rightarrow> retrieved_context \<Rightarrow> rag_payload" where
  "build_payload st context =
    \<lparr>p_state = st,
     p_knowledge = or_none_text (str_join [CHR 0x0A] (knowledge_snippets context)),
     p_short_term = or_none_text (str_join [CHR 0x0A] (short_term_memory context)),
     p_profile = (case user_profile context of None \<Rightarrow> none_text | Some t \<Rightarrow> or_none_text t)\<rparr>"

definition run_rag_path ::
  "env \<Rightarrow> world \<Rightarrow> risk_evaluation \<Rightarrow> snapshot \<Rightarrow> (error + route_result) \<times> world" where
  "run_rag_path env w evaluation st =
    (case e_retrieve env (w_memlog w) st (state_user_id st) of
       Inl e \<Rightarrow> (Inl e, w)
     | Inr context \<Rightarrow>
         (let payload = build_payload st context;
              message = (case e_llm env payload of
                           Inr content \<Rightarrow> content
                         | Inl exc \<Rightarrow> fallback_prefix @ error_text exc)
          in (Inr \<lparr>rr_route = ''rag'', rr_risk_level = ev_level evaluation,
                   rr_message = py_strip message, rr_reminder_ids = None,
                   rr_evidence = Some (RagEvidence payload)\<rparr>, w)))"

definition run_template_path :: "risk_evaluation \<Rightarrow> snapshot \<Rightarrow> route_result" where
  "run_template_path evaluation st =
    (let message = (if s_warnings st = [] then template_base_message
                    else template_caution_message);
         message = (if (case s_steps st of None \<Rightarrow> False | Some n \<Rightarrow> n \<noteq> 0 \<and> n < 3000)
                    then message @ activity_clause else message)
     in \<lparr>rr_route = ''template'', rr_risk_level = ev_level evaluation,
         rr_message = message, rr_reminder_ids = None,
         rr_evidence = Some (TemplateEvidence (ev_reasons evaluation))\<rparr>)"

definition request_document :: "string \<Rightarrow> risk_evaluation \<Rightarrow> document" where
  "request_document user_id evaluation =
    \<lparr>d_user_id = user_id,
     d_content = RoutingRequestLog (ev_level evaluation) (ev_reasons evaluation),
     d_event_type = ''routing_request'',
     d_importance = 6 / 5,
     d_extra = LevelExtra (ev_level evaluation)\<rparr>"

definition result_document :: "string \<Rightarrow> route_result \<Rightarrow> document" where
  "result_document user_id result =
    \<lparr>d_user_id = user_id,
     d_content = RoutingResultLog (rr_route result) (rr_message result),
     d_event_type = ''routing_result'',
     d_importance = 1,
     d_extra = NoExtra\<rparr>"

definition dispatch ::
  "env \<Rightarrow> world \<Rightarrow> risk_evaluation \<Rightarrow> snapshot \<Rightarrow> (error + route_result) \<times> world" where
  "dispatch env w evaluation st =
    (if ev_level evaluation = ''high'' then run env w evaluation st
     else if ev_level evaluation = ''medium'' then run_rag_path env w evaluation st
     else (Inr (run_template_path evaluation st), w))"

definition route :: "env \<Rightarrow> world \<Rightarrow> snapshot \<Rightarrow> (error + route_result) \<times> world" where
  "route env w st =
    (let evaluation = evaluate st;
         user_id = state_user_id st
     in on_ok (add_event env w (request_document user_id evaluation)) (\<lambda>_ w1.
        on_ok (dispatch env w1 evaluation st) (\<lambda>result w2.
        on_ok (add_event env w2 (result_document user_id result)) (\<lambda>_ w3.
        (Inr result, w3)))))"

subsection \<open>The synchroniser (reminder\_sync.py)\<close>

text \<open>
  A received message: bytes that are no JSON text, a JSON value that is no object, or a
  JSON object, of which the keys that \<^verbatim>\<open>_on_message\<close> reads are kept. \<open>None\<close> is an
  absent key or a JSON \<^verbatim>\<open>null\<close>.
\<close>

record reminder_fields =
  rf_id :: "int option"
  rf_status :: "string option"
  rf_user_id :: "string option"

record sync_payload =
  sp_source :: "string option"
  sp_event :: "string option"
  sp_reminder :: "reminder_fields option"

datatype wire =
    NotJson
  | JsonOther
  | JsonObject sync_payload

text \<open>\<^verbatim>\<open>x or default\<close> on an optional text: \<^verbatim>\<open>None\<close> and the empty text are false.\<close>

definition text_or :: "string option \<Rightarrow> string option \<Rightarrow> string option" where
  "text_or x y = (case x of None \<Rightarrow> y | Some s \<Rightarrow> if s = [] then y else Some s)"

text \<open>\<^verbatim>\<open>payload.get("reminder") or {}\<close>.\<close>

definition reminder_or_empty :: "sync_payload \<Rightarrow> reminder_fields" where
  "reminder_or_empty payload =
    (case sp_reminder payload of
       None \<Rightarrow> \<lparr>rf_id = None, rf_status = None, rf_user_id = None\<rparr>
     | Some r \<Rightarrow> r)"

definition on_message :: "string \<Rightarrow> env \<Rightarrow> world \<Rightarrow> wire \<Rightarrow> (error + unit) \<times> world" where
  "on_message source_id env w msg =
    (case msg of
       NotJson \<Rightarrow> (Inr (), w)
     | JsonOther \<Rightarrow> (Inl (AttributeError ''object has no attribute get''), w)
     | JsonObject payload \<Rightarrow>
         if sp_source payload = Some source_id then (Inr (), w)
         else
           (let event = sp_event payload;
                reminder = reminder_or_empty payload;
                reminder_id = rf_id reminder;
                status = text_or (rf_status reminder) event;
                user_id = text_or (rf_user_id reminder) (Some DEFAULT_USER_ID)
            in case (event, reminder_id, status, user_id) of
                 (Some ev, Some i, Some s, Some u) \<Rightarrow>
                   if ev \<in> {''completed'', ''ignored'', ''pending'', ''triggered''} \<and> i \<noteq> 0
                   then (Inr (), snd (update_status env w i s None u False))
                   else (Inr (), w)
               | _ \<Rightarrow> (Inr (), w)))"

subsection \<open>The scoring table as the specification words it\<close>

text \<open>
  This definition follows the specification's table, not the source: one row per
  condition that fires, in the order of the table, a present number compared whatever
  its value. It is compared with \<open>evaluate\<close> below.
\<close>

definition table_rows :: "snapshot \<Rightarrow> (int \<times> reason) list" where
  "table_rows st =
    (case s_temperature st of
       None \<Rightarrow> []
     | Some t \<Rightarrow>
         if t \<ge> 33 then [(4, HighTemp t)]
         else if 30 \<le> t \<and> t < 33 then [(2, WarmTemp t)]
         else if t \<le> 10 then [(2, LowTemp t)]
         else []) @
    (case s_humidity st of
       None \<Rightarrow> []
     | Some h \<Rightarrow> if h \<ge> 90 then [(1, HumidityReason h)] else []) @
    (if ''WHOT'' \<in> set (s_warnings st) \<or> ''WRAINB'' \<in> set (s_warnings st)
     then [(3, WarningReason)] else []) @
    (case s_heart_rate st of
       None \<Rightarrow> []
     | Some h \<Rightarrow>
         if h \<ge> 110 then [(3, HighHeartRate h)]
         else if h \<le> 50 then [(2, LowHeartRate h)]
         else []) @
    (case s_sleep st of
       None \<Rightarrow> []
     | Some s \<Rightarrow> if s < 6 then [(2, ShortSleep s)] else [])"

definition table_evaluate :: "snapshot \<Rightarrow> risk_evaluation" where
  "table_evaluate st =
    (let score = sum_list (map fst (table_rows st))
     in \<lparr>ev_score = score,
         ev_level = (if score \<ge> 7 then ''high''
                     else if 4 \<le> score \<and> score < 7 then ''medium'' else ''low''),
         ev_reasons = map snd (table_rows st)\<rparr>)"

subsection \<open>Properties of states and environments\<close>

text \<open>The vector store behind the memory answers every document without an exception.\<close>

definition memory_reliable :: "env \<Rightarrow> bool" where
  "memory_reliable env = (\<forall>log d. e_mem_fault env log d = None)"

definition set_triggered :: "reminder \<Rightarrow> reminder" where
  "set_triggered r = r\<lparr>r_status := ''triggered''\<rparr>"

definition valid_status :: "string \<Rightarrow> bool" where
  "valid_status s = (s \<in> {''pending'', ''triggered'', ''completed'', ''ignored''})"

definition statuses_valid :: "world \<Rightarrow> bool" where
  "statuses_valid w = list_all (\<lambda>r. valid_status (r_status r)) (w_rows w)"

text \<open>The fallback text of the advice path up to its colon, without the space after it.\<close>

definition fallback_text :: string where
  "fallback_text = butlast fallback_prefix"

text \<open>
  The status that a received message carries for its reminder is absent, empty or one of
  the four known ones.
\<close>

definition message_status_known :: "wire \<Rightarrow> bool" where
  "message_status_known msg =
    (case msg of
       JsonObject payload \<Rightarrow>
         (case rf_status (reminder_or_empty payload) of
            None \<Rightarrow> True
          | Some s \<Rightarrow> s = [] \<or> valid_status s)
     | _ \<Rightarrow> True)"

text \<open>
  The instant that \<open>sleep_macro\<close> computes for the wind-down reminder, and the rows that
  the two macros insert when their first row gets the id \<open>first_id\<close>, the clock reads
  \<open>now\<close> and \<^verbatim>\<open>CURRENT_TIMESTAMP\<close> gives \<open>created\<close>.
\<close>

definition upcoming_2200 :: "int \<Rightarrow> int" where
  "upcoming_2200 now =
    (if replace_2200 now \<le> now then replace_2200 now + days 1 else replace_2200 now)"

definition pending_row ::
  "int \<Rightarrow> string \<Rightarrow> string \<Rightarrow> string \<Rightarrow> string \<Rightarrow> string \<Rightarrow> string \<Rightarrow> reminder" where
  "pending_row i user content severity due tags created =
    \<lparr>r_id = i, r_user_id = user, r_content = content, r_severity = severity,
     r_due_time = Some due, r_repeat_rule = None, r_status = ''pending'', r_tags = Some tags,
     r_created_at = created\<rparr>"

definition heat_rows :: "env \<Rightarrow> string \<Rightarrow> string \<Rightarrow> int \<Rightarrow> int \<Rightarrow> reminder list" where
  "heat_rows env created user first_id now =
    [pending_row first_id user hydration_content ''high''
       (e_isoformat env (now + minutes 30)) ''heat,hydration'' created,
     pending_row (first_id + 1) user family_content ''high''
       (e_isoformat env (now + hours 1)) ''family,safety'' created]"

definition sleep_rows :: "env \<Rightarrow> string \<Rightarrow> string \<Rightarrow> int \<Rightarrow> int \<Rightarrow> reminder list" where
  "sleep_rows env created user first_id now =
    [pending_row first_id user wind_down_content ''medium''
       (e_isoformat env (upcoming_2200 now)) ''sleep,routine'' created,
     pending_row (first_id + 1) user sleep_log_content ''low''
       (e_isoformat env (now + hours 12)) ''sleep,tracking'' created]"

text \<open>
  The rows that \<open>run\<close> inserts and the message it composes, by the two tests of \<open>run\<close>:
  the heat macro first, then the sleep macro, which takes the next ids and the next clock
  reading.
\<close>

definition run_rows :: "env \<Rightarrow> world \<Rightarrow> snapshot \<Rightarrow> reminder list" where
  "run_rows env w st =
    (if heat_test st
     then heat_rows env (w_db_time w) (state_user_id st) (w_seq w + 1) (e_clock env (w_ticks w))
     else []) @
    (if sleep_test st
     then sleep_rows env (w_db_time w) (state_user_id st)
            (w_seq w + (if heat_test st then 3 else 1))
            (e_clock env (w_ticks w + (if heat_test st then 1 else 0)))
     else [])"

definition run_message :: "snapshot \<Rightarrow> string" where
  "run_message st =
    (if heat_test st \<and> sleep_test st then heat_message @ [CHR 0x0A] @ sleep_message
     else if heat_test st then heat_message
     else if sleep_test st then sleep_message
     else generic_caution_message)"

text \<open>Every id of the table is at most the counter of \<^verbatim>\<open>AUTOINCREMENT\<close>.\<close>

definition ids_below_seq :: "world \<Rightarrow> bool" where
  "ids_below_seq w = list_all (\<lambda>r. r_id r \<le> w_seq w) (w_rows w)"

subsection \<open>Concrete inputs\<close>

definition blank_snapshot :: snapshot where
  "blank_snapshot =
    \<lparr>s_user_id = None, s_timestamp = [], s_temperature = None, s_humidity = None,
     s_warnings = [], s_heart_rate = None, s_steps = None, s_sleep = None, s_notes = None\<rparr>"

text \<open>
  \<^verbatim>\<open>datetime.isoformat\<close> on the whole seconds of January 1970, which is where the
  concrete inputs below live.
\<close>

definition two_digits :: "int \<Rightarrow> string" where
  "two_digits n = [''0123456789'' ! nat (n div 10), ''0123456789'' ! nat (n mod 10)]"

definition isoformat_1970 :: "int \<Rightarrow> string" where
  "isoformat_1970 t =
    (let s = t div 1000000
     in ''1970-01-'' @ two_digits (1 + s div 86400) @ ''T'' @ two_digits (s mod 86400 div 3600)
        @ '':'' @ two_digits (s mod 3600 div 60) @ '':'' @ two_digits (s mod 60))"

text \<open>
  An environment in which the memory accepts every document, the channel is connected,
  every clock reading is the epoch, retrieval finds nothing and the language model
  times out, with an exception text that ends in a line feed.
\<close>

definition calm_env :: env where
  "calm_env =
    \<lparr>e_publisher = Some \<lparr>pub_available = True, pub_source = ''hub''\<rparr>,
     e_clock = (\<lambda>n. 0),
     e_isoformat = isoformat_1970,
     e_mem_fault = (\<lambda>log d. None),
     e_retrieve = (\<lambda>log st u. Inr \<lparr>knowledge_snippets = [], short_term_memory = [],
                                   user_profile = None\<rparr>),
     e_llm = (\<lambda>p. Inl (CollaboratorError (''Request timed out.'' @ [CHR 0x0A])))\<rparr>"

text \<open>The same environment with a vector store that rejects every document.\<close>

definition deaf_memory_env :: env where
  "deaf_memory_env =
    calm_env\<lparr>e_mem_fault := (\<lambda>log d. Some (CollaboratorError ''Connection error.''))\<rparr>"

text \<open>The same environment with a vector store that rejects the routing results only.\<close>

definition late_fault_env :: env where
  "late_fault_env =
    calm_env\<lparr>e_mem_fault :=
      (\<lambda>log d. if d_event_type d = ''routing_result''
               then Some (CollaboratorError ''Connection error.'') else None)\<rparr>"


definition empty_world :: world where
  "empty_world =
    \<lparr>w_rows = [], w_seq = 0, w_db_time = ''1970-01-01 00:00:00'', w_memlog = [],
     w_outbox = [], w_ticks = 0\<rparr>"

definition demo_reminder :: "int \<Rightarrow> string \<Rightarrow> string option \<Rightarrow> reminder" where
  "demo_reminder i status due =
    \<lparr>r_id = i, r_user_id = ''user_001'', r_content = ''drink water'', r_severity = ''medium'',
     r_due_time = due, r_repeat_rule = None, r_status = status, r_tags = None,
     r_created_at = ''1970-01-01 00:00:00''\<rparr>"

text \<open>
  A store with a pending reminder due at 08:00, a pending one due the next day, a
  pending one without a due time and a completed one that was due at 07:00.
\<close>

definition demo_world :: world where
  "demo_world =
    empty_world\<lparr>w_rows :=
      [demo_reminder 1 ''pending'' (Some ''1970-01-01T08:00:00''),
       demo_reminder 2 ''pending'' (Some ''1970-01-02T08:00:00''),
       demo_reminder 3 ''pending'' None,
       demo_reminder 4 ''completed'' (Some ''1970-01-01T07:00:00'')],
      w_seq := 4\<rparr>"


text \<open>Humidity 95, the rainstorm warning and a heart rate of 120: seven points.\<close>

definition humid_storm_snapshot :: snapshot where
  "humid_storm_snapshot =
    blank_snapshot\<lparr>s_humidity := Some 95, s_warnings := [''WRAINB''],
                   s_heart_rate := Some 120\<rparr>"

text \<open>The high-risk demonstration state of \<^verbatim>\<open>watch_backend.py\<close>.\<close>

definition demo_high_snapshot :: snapshot where
  "demo_high_snapshot =
    blank_snapshot\<lparr>s_user_id := Some ''user_001'', s_temperature := Some 35,
                   s_warnings := [''WHOT''], s_heart_rate := Some 115, s_steps := Some 1800,
                   s_sleep := Some (11 / 2)\<rparr>"

text \<open>
  The seven points of \<open>humid_storm_snapshot\<close> and a sleep reading of zero hours.
\<close>

definition sleepless_snapshot :: snapshot where
  "sleepless_snapshot = humid_storm_snapshot\<lparr>s_sleep := Some 0\<rparr>"

text \<open>A message of another device that marks reminder 1 with a status of its own.\<close>

definition archived_message :: wire where
  "archived_message =
    JsonObject \<lparr>sp_source = Some ''watch'', sp_event = Some ''completed'',
                sp_reminder = Some \<lparr>rf_id = Some 1, rf_status = Some ''archived'',
                                    rf_user_id = Some ''user_001''\<rparr>\<rparr>"

definition completed_message :: "string \<Rightarrow> wire" where
  "completed_message source =
    JsonObject \<lparr>sp_source = Some source, sp_event = Some ''completed'',
                sp_reminder = Some \<lparr>rf_id = Some 1, rf_status = Some ''completed'',
                                    rf_user_id = Some ''user_001''\<rparr>\<rparr>"

section \<open>Auxiliary facts\<close>

subsection \<open>Sequencing, memory and channel\<close>

lemma on_ok_Inl [simp]: "on_ok (Inl e, w) f = (Inl e, w)"
  by (simp add: on_ok_def)

lemma on_ok_Inr [simp]: "on_ok (Inr x, w) f = f x w"
  by (simp add: on_ok_def)

lemma add_event_memlog: "w_memlog (snd (add_event env w d)) = w_memlog w @ [d]"
  by (simp add: add_event_def Let_def split: option.splits)

lemma add_event_frame:
  "w_rows (snd (add_event env w d)) = w_rows w"
  "w_outbox (snd (add_event env w d)) = w_outbox w"
  "w_seq (snd (add_event env w d)) = w_seq w"
  "w_ticks (snd (add_event env w d)) = w_ticks w"
  "w_db_time (snd (add_event env w d)) = w_db_time w"
  by (simp_all add: add_event_def Let_def split: option.splits)

lemma add_event_result:
  "add_event env w d =
    (case e_mem_fault env (w_memlog w) d of Some e \<Rightarrow> Inl e | None \<Rightarrow> Inr (),
     w\<lparr>w_memlog := w_memlog w @ [d]\<rparr>)"
  by (simp add: add_event_def Let_def split: option.splits)

lemma add_event_reliable:
  "memory_reliable env \<Longrightarrow> add_event env w d = (Inr (), w\<lparr>w_memlog := w_memlog w @ [d]\<rparr>)"
  by (simp add: add_event_result memory_reliable_def)

lemma log_reminder_event_frame:
  "w_rows (snd (log_reminder_event env w u i s n)) = w_rows w"
  "w_outbox (snd (log_reminder_event env w u i s n)) = w_outbox w"
  "w_seq (snd (log_reminder_event env w u i s n)) = w_seq w"
  "w_ticks (snd (log_reminder_event env w u i s n)) = w_ticks w"
  "w_db_time (snd (log_reminder_event env w u i s n)) = w_db_time w"
  unfolding log_reminder_event_def by (rule add_event_frame)+

lemma log_reminder_event_reliable:
  "memory_reliable env \<Longrightarrow> fst (log_reminder_event env w u i s n) = Inr ()"
  unfolding log_reminder_event_def by (simp add: add_event_reliable)

lemma log_reminder_event_accepted:
  "memory_reliable env \<Longrightarrow>
   log_reminder_event env w u i s n =
     (Inr (), w\<lparr>w_memlog := w_memlog w @ [reminder_document u i s n]\<rparr>)"
  unfolding log_reminder_event_def by (rule add_event_reliable)

lemma publish_frame:
  "w_rows (publish p w r e) = w_rows w"
  "w_memlog (publish p w r e) = w_memlog w"
  "w_seq (publish p w r e) = w_seq w"
  "w_ticks (publish p w r e) = w_ticks w"
  "w_db_time (publish p w r e) = w_db_time w"
  by (simp_all add: publish_def)

subsection \<open>Selecting and updating rows\<close>

lemma select_by_id_update:
  "select_by_id (set_status_where_id rows s i) i =
     map_option (\<lambda>r. r\<lparr>r_status := s\<rparr>) (select_by_id rows i)"
  by (induction rows) (simp_all add: select_by_id_def set_status_where_id_def)

lemma select_by_id_None: "select_by_id rows i = None \<longleftrightarrow> i \<notin> r_id ` set rows"
  by (auto simp: select_by_id_def find_None_iff)

lemma map_keeps_ids:
  assumes "\<And>r. r_id (f r) = r_id r"
  shows "r_id ` set (map f rows) = r_id ` set rows"
  by (induction rows) (simp_all add: assms)

lemma set_status_where_id_ids:
  "r_id ` set (set_status_where_id rows s i) = r_id ` set rows"
  unfolding set_status_where_id_def by (rule map_keeps_ids) simp

lemma set_status_where_id_valid:
  assumes "valid_status s" and "list_all (\<lambda>r. valid_status (r_status r)) rows"
  shows "list_all (\<lambda>r. valid_status (r_status r)) (set_status_where_id rows s i)"
  using assms by (induction rows) (simp_all add: set_status_where_id_def)

text \<open>The three ways in which \<open>update_status\<close> ends.\<close>

lemma update_status_cases:
  obtains
    (no_row) "select_by_id (set_status_where_id (w_rows w) s i) i = None"
      "update_status env w i s n u p =
         (Inl missing_row_error,
          w\<lparr>w_rows := set_status_where_id (w_rows w) s i\<rparr>)"
  | (log_failed) r e w2 where
      "select_by_id (set_status_where_id (w_rows w) s i) i = Some r"
      "log_reminder_event env (w\<lparr>w_rows := set_status_where_id (w_rows w) s i\<rparr>) u i s n =
         (Inl e, w2)"
      "update_status env w i s n u p = (Inl e, w2)"
  | (logged) r w2 where
      "select_by_id (set_status_where_id (w_rows w) s i) i = Some r"
      "log_reminder_event env (w\<lparr>w_rows := set_status_where_id (w_rows w) s i\<rparr>) u i s n =
         (Inr (), w2)"
      "update_status env w i s n u p =
         (Inr r, case e_publisher env of None \<Rightarrow> w2
                 | Some q \<Rightarrow> if p then publish q w2 r s else w2)"
proof (cases "select_by_id (set_status_where_id (w_rows w) s i) i")
  case None
  then have "update_status env w i s n u p =
      (Inl missing_row_error,
       w\<lparr>w_rows := set_status_where_id (w_rows w) s i\<rparr>)"
    unfolding update_status_def Let_def from_row_def by simp
  with None show ?thesis by (rule no_row)
next
  case (Some r)
  let ?w1 = "w\<lparr>w_rows := set_status_where_id (w_rows w) s i\<rparr>"
  obtain res w2 where log: "log_reminder_event env ?w1 u i s n = (res, w2)"
    by (cases "log_reminder_event env ?w1 u i s n")
  show ?thesis
  proof (cases res)
    case (Inl e)
    have "update_status env w i s n u p = (Inl e, w2)"
      using Some log Inl unfolding update_status_def Let_def from_row_def by simp
    with Some log Inl show ?thesis by (auto intro: log_failed)
  next
    case (Inr x)
    have "update_status env w i s n u p =
         (Inr r, case e_publisher env of None \<Rightarrow> w2
                 | Some q \<Rightarrow> if p then publish q w2 r s else w2)"
      using Some log Inr unfolding update_status_def Let_def from_row_def by simp
    with Some log Inr show ?thesis by (auto intro: logged)
  qed
qed

lemma update_status_rows:
  "w_rows (snd (update_status env w i s n u p)) = set_status_where_id (w_rows w) s i"
proof (cases rule: update_status_cases [of w s i env n u p])
  case no_row
  then show ?thesis by simp
next
  case (log_failed r e w2)
  have "w_rows w2 = set_status_where_id (w_rows w) s i"
    using log_reminder_event_frame(1)
      [of env "w\<lparr>w_rows := set_status_where_id (w_rows w) s i\<rparr>" u i s n]
    by (simp add: log_failed(2))
  then show ?thesis by (simp add: log_failed(3))
next
  case (logged r w2)
  have "w_rows w2 = set_status_where_id (w_rows w) s i"
    using log_reminder_event_frame(1)
      [of env "w\<lparr>w_rows := set_status_where_id (w_rows w) s i\<rparr>" u i s n]
    by (simp add: logged(2))
  then show ?thesis by (simp add: logged(3) publish_frame split: option.splits)
qed

lemma update_status_outbox:
  "w_outbox (snd (update_status env w i s n u False)) = w_outbox w"
proof (cases rule: update_status_cases [of w s i env n u False])
  case no_row
  then show ?thesis by simp
next
  case (log_failed r e w2)
  have "w_outbox w2 = w_outbox w"
    using log_reminder_event_frame(2)
      [of env "w\<lparr>w_rows := set_status_where_id (w_rows w) s i\<rparr>" u i s n]
    by (simp add: log_failed(2))
  then show ?thesis by (simp add: log_failed(3))
next
  case (logged r w2)
  have "w_outbox w2 = w_outbox w"
    using log_reminder_event_frame(2)
      [of env "w\<lparr>w_rows := set_status_where_id (w_rows w) s i\<rparr>" u i s n]
    by (simp add: logged(2))
  then show ?thesis by (simp add: logged(3) split: option.splits)
qed

lemma update_status_reliable:
  assumes "memory_reliable env" and "i \<in> r_id ` set (w_rows w)"
  shows "\<exists>r. fst (update_status env w i s n u p) = Inr r"
proof (cases rule: update_status_cases [of w s i env n u p])
  case no_row
  with assms(2) show ?thesis
    by (simp add: select_by_id_None set_status_where_id_ids)
next
  case (log_failed r e w2)
  with log_reminder_event_reliable [OF assms(1)] show ?thesis
    by (metis fst_conv sum.distinct(1))
next
  case (logged r w2)
  then show ?thesis by simp
qed


subsection \<open>The sweep\<close>

lemma is_due_set_triggered [simp]: "\<not> is_due t (set_triggered r)"
  by (simp add: is_due_def set_triggered_def)

text \<open>
  The \<^verbatim>\<open>WHERE\<close> clause compares texts. For a reminder whose due time was written by
  \<^verbatim>\<open>isoformat\<close>, it selects by time wherever \<^verbatim>\<open>isoformat\<close> keeps the order of the due
  instant and \<open>now\<close>, as the fixed-width fields of a naive \<^verbatim>\<open>datetime\<close> do.
\<close>

lemma is_due_chronological:
  assumes "text_le (e_isoformat env t) (e_isoformat env now) \<longleftrightarrow> t \<le> now"
    and "r_due_time r = Some (e_isoformat env t)"
  shows "is_due (e_isoformat env now) r \<longleftrightarrow> r_status r = ''pending'' \<and> t \<le> now"
  using assms by (simp add: is_due_def)










subsection \<open>Fresh ids and created rows\<close>

lemma fold_max_lower: "a \<le> fold max xs (a::int)"
proof (induction xs arbitrary: a)
  case Nil
  show ?case by simp
next
  case (Cons x xs)
  have "a \<le> max x a" by simp
  also have "max x a \<le> fold max xs (max x a)" by (rule Cons.IH)
  finally show ?case by simp
qed

lemma fold_max_upper: "x \<in> set xs \<Longrightarrow> x \<le> fold max xs (a::int)"
proof (induction xs arbitrary: a)
  case Nil
  then show ?case by simp
next
  case (Cons y ys)
  show ?case
  proof (cases "x = y")
    case True
    have "x \<le> max y a" using True by simp
    also have "max y a \<le> fold max ys (max y a)" by (rule fold_max_lower)
    finally show ?thesis by simp
  next
    case False
    with Cons.prems have "x \<in> set ys" by simp
    from Cons.IH [OF this] show ?thesis by simp
  qed
qed

lemma new_rowid_fresh: "r \<in> set rows \<Longrightarrow> r_id r < new_rowid rows seq"
  using fold_max_upper [of "r_id r" "map r_id rows" seq] by (simp add: new_rowid_def)

lemma select_by_id_appended:
  assumes "\<forall>r \<in> set rows. r_id r \<noteq> r_id row"
  shows "select_by_id (rows @ [row]) (r_id row) = Some row"
  using assms by (induction rows) (simp_all add: select_by_id_def)

lemma insert_reminder_result:
  "fst (insert_reminder w u c sev d rep t) =
     \<lparr>r_id = new_rowid (w_rows w) (w_seq w), r_user_id = u, r_content = c, r_severity = sev,
      r_due_time = d, r_repeat_rule = rep, r_status = ''pending'', r_tags = t,
      r_created_at = w_db_time w\<rparr>"
  "snd (insert_reminder w u c sev d rep t) =
     w\<lparr>w_rows := w_rows w @ [fst (insert_reminder w u c sev d rep t)],
       w_seq := new_rowid (w_rows w) (w_seq w)\<rparr>"
  by (simp_all add: insert_reminder_def Let_def)

lemma insert_reminder_select:
  "select_by_id (w_rows (snd (insert_reminder w u c sev d rep t)))
     (r_id (fst (insert_reminder w u c sev d rep t))) =
   Some (fst (insert_reminder w u c sev d rep t))"
proof -
  have "\<forall>r \<in> set (w_rows w). r_id r \<noteq> r_id (fst (insert_reminder w u c sev d rep t))"
  proof
    fix r
    assume "r \<in> set (w_rows w)"
    from new_rowid_fresh [OF this, of "w_seq w"]
    show "r_id r \<noteq> r_id (fst (insert_reminder w u c sev d rep t))"
      by (simp add: insert_reminder_result(1))
  qed
  from select_by_id_appended [OF this] show ?thesis
    by (simp add: insert_reminder_result(2))
qed

text \<open>The two ways in which \<open>create_reminder\<close> ends.\<close>

lemma create_reminder_cases:
  obtains
    (log_failed) e w2 where
      "log_reminder_event env
         (snd (insert_reminder w u c sev (map_option (e_isoformat env) due) rep (tags_text tags)))
         u (r_id (fst (insert_reminder w u c sev (map_option (e_isoformat env) due) rep
                         (tags_text tags))))
         ''created'' (Some c) = (Inl e, w2)"
      "create_reminder env w c u sev due rep tags = (Inl e, w2)"
  | (created) w2 where
      "log_reminder_event env
         (snd (insert_reminder w u c sev (map_option (e_isoformat env) due) rep (tags_text tags)))
         u (r_id (fst (insert_reminder w u c sev (map_option (e_isoformat env) due) rep
                         (tags_text tags))))
         ''created'' (Some c) = (Inr (), w2)"
      "create_reminder env w c u sev due rep tags =
         (Inr (fst (insert_reminder w u c sev (map_option (e_isoformat env) due) rep
                      (tags_text tags))),
          case e_publisher env of
            None \<Rightarrow> w2
          | Some q \<Rightarrow> publish q w2
              (fst (insert_reminder w u c sev (map_option (e_isoformat env) due) rep
                      (tags_text tags))) ''created'')"
proof -
  let ?ins = "insert_reminder w u c sev (map_option (e_isoformat env) due) rep (tags_text tags)"
  obtain res w2 where log:
    "log_reminder_event env (snd ?ins) u (r_id (fst ?ins)) ''created'' (Some c) = (res, w2)"
    by (cases "log_reminder_event env (snd ?ins) u (r_id (fst ?ins)) ''created'' (Some c)")
  have unfolded: "create_reminder env w c u sev due rep tags =
      on_ok (log_reminder_event env (snd ?ins) u (r_id (fst ?ins)) ''created'' (Some c))
        (\<lambda>_ w2. (Inr (fst ?ins),
                  case e_publisher env of None \<Rightarrow> w2
                  | Some q \<Rightarrow> publish q w2 (fst ?ins) ''created''))"
    unfolding create_reminder_def Let_def
    by (simp add: split_beta insert_reminder_select from_row_def)
  show ?thesis
  proof (cases res)
    case (Inl e)
    with log unfolded show ?thesis by (auto intro: log_failed)
  next
    case (Inr x)
    with log unfolded show ?thesis by (auto intro: created)
  qed
qed

lemma create_reminder_rows:
  "w_rows (snd (create_reminder env w c u sev due rep tags)) =
     w_rows w @ [fst (insert_reminder w u c sev (map_option (e_isoformat env) due) rep
                        (tags_text tags))]"
proof (cases rule: create_reminder_cases [of env w u c sev due rep tags])
  case (log_failed e w2)
  from log_reminder_event_frame(1) [of env _ u _ "''created''" "Some c"] log_failed(1)
  have "w_rows w2 = w_rows (snd (insert_reminder w u c sev (map_option (e_isoformat env) due)
      rep (tags_text tags)))"
    by (metis snd_conv)
  then show ?thesis
    by (simp add: log_failed(2) insert_reminder_result(2))
next
  case (created w2)
  from log_reminder_event_frame(1) [of env _ u _ "''created''" "Some c"] created(1)
  have "w_rows w2 = w_rows (snd (insert_reminder w u c sev (map_option (e_isoformat env) due)
      rep (tags_text tags)))"
    by (metis snd_conv)
  then show ?thesis
    by (simp add: created(2) insert_reminder_result(2) publish_frame split: option.splits)
qed

lemma create_reminder_returns_inserted:
  "fst (create_reminder env w c u sev due rep tags) = Inr r \<Longrightarrow>
   r = fst (insert_reminder w u c sev (map_option (e_isoformat env) due) rep (tags_text tags))"
  by (cases rule: create_reminder_cases [of env w u c sev due rep tags]) simp_all

section \<open>The claims\<close>

subsection \<open>C1: the scoring table\<close>

text \<open>
  Where the heart rate and the sleep reading are not the number zero, \<open>evaluate\<close> is the
  scoring table of the specification: the same score, level and reasons.
\<close>

lemma evaluate_follows_table:
  assumes "s_heart_rate st \<noteq> Some 0" and "s_sleep st \<noteq> Some 0"
  shows "evaluate st = table_evaluate st"
  using assms
  by (auto simp: evaluate_def table_evaluate_def table_rows_def Let_def split: option.splits)

text \<open>
  C1. The claim gives two points to every sleep reading below 6 and to every heart rate of
  at most 50. The code skips a reading that is the number zero, as if it were absent: a
  snapshot whose only reading is a sleep of 0 hours, or a heart rate of 0, scores 0 with
  no reason, where the table gives 2 points and one reason.
\<close>

theorem evaluate_skips_zero_readings:
  "evaluate (blank_snapshot\<lparr>s_sleep := Some 0\<rparr>) =
     \<lparr>ev_score = 0, ev_level = ''low'', ev_reasons = []\<rparr> \<and>
   table_evaluate (blank_snapshot\<lparr>s_sleep := Some 0\<rparr>) =
     \<lparr>ev_score = 2, ev_level = ''low'', ev_reasons = [ShortSleep 0]\<rparr> \<and>
   evaluate (blank_snapshot\<lparr>s_heart_rate := Some 0\<rparr>) =
     \<lparr>ev_score = 0, ev_level = ''low'', ev_reasons = []\<rparr> \<and>
   table_evaluate (blank_snapshot\<lparr>s_heart_rate := Some 0\<rparr>) =
     \<lparr>ev_score = 2, ev_level = ''low'', ev_reasons = [LowHeartRate 0]\<rparr>"
  by (simp add: evaluate_def table_evaluate_def table_rows_def blank_snapshot_def)

subsection \<open>C2: the care macros\<close>

lemma fold_max_absorb: "\<forall>x \<in> set xs. x \<le> a \<Longrightarrow> fold max xs (a::int) = a"
  by (induction xs arbitrary: a) (simp_all add: max_absorb2)

lemma new_rowid_next: "ids_below_seq w \<Longrightarrow> new_rowid (w_rows w) (w_seq w) = w_seq w + 1"
  using fold_max_absorb [of "map r_id (w_rows w)" "w_seq w"]
  by (simp add: new_rowid_def ids_below_seq_def list_all_iff)

lemma upcoming_2200_next:
  "now < upcoming_2200 now \<and> upcoming_2200 now \<le> now + days 1 \<and>
   upcoming_2200 now mod days 1 = hours 22"
proof -
  have "now div 86400000000 * 86400000000 = now - now mod 86400000000"
    by (simp add: minus_mod_eq_div_mult)
  moreover have "0 \<le> now mod 86400000000" "now mod 86400000000 < 86400000000"
    by simp_all
  ultimately have bounds: "now < upcoming_2200 now \<and> upcoming_2200 now \<le> now + days 1"
    by (auto simp: upcoming_2200_def replace_2200_def days_def hours_def)
  have "replace_2200 now mod days 1 = hours 22"
    by (simp add: replace_2200_def days_def hours_def)
  moreover have "(replace_2200 now + days 1) mod days 1 = replace_2200 now mod days 1"
    by simp
  ultimately have "upcoming_2200 now mod days 1 = hours 22"
    by (simp add: upcoming_2200_def)
  with bounds show ?thesis
    by simp
qed

lemma create_reminder_reliable:
  assumes "memory_reliable env" and "ts \<noteq> []"
  shows
    "create_reminder env w c u sev (Some t) None (Some ts) =
       (Inr (pending_row (new_rowid (w_rows w) (w_seq w)) u c sev (e_isoformat env t)
               (str_join '','' ts) (w_db_time w)),
        snd (create_reminder env w c u sev (Some t) None (Some ts)))"
    "w_rows (snd (create_reminder env w c u sev (Some t) None (Some ts))) = w_rows w @
       [pending_row (new_rowid (w_rows w) (w_seq w)) u c sev (e_isoformat env t)
          (str_join '','' ts) (w_db_time w)]"
    "w_seq (snd (create_reminder env w c u sev (Some t) None (Some ts))) =
       new_rowid (w_rows w) (w_seq w)"
    "w_ticks (snd (create_reminder env w c u sev (Some t) None (Some ts))) = w_ticks w"
    "w_db_time (snd (create_reminder env w c u sev (Some t) None (Some ts))) = w_db_time w"
proof -
  let ?ins = "insert_reminder w u c sev (map_option (e_isoformat env) (Some t)) None
    (tags_text (Some ts))"
  let ?create = "create_reminder env w c u sev (Some t) None (Some ts)"
  have row: "fst ?ins = pending_row (new_rowid (w_rows w) (w_seq w)) u c sev (e_isoformat env t)
      (str_join '','' ts) (w_db_time w)"
    using assms(2) by (simp add: insert_reminder_result(1) pending_row_def tags_text_def)
  have "?create = (Inr (fst ?ins), snd ?create) \<and> w_rows (snd ?create) = w_rows w @ [fst ?ins] \<and>
      w_seq (snd ?create) = new_rowid (w_rows w) (w_seq w) \<and>
      w_ticks (snd ?create) = w_ticks w \<and> w_db_time (snd ?create) = w_db_time w"
  proof (cases rule: create_reminder_cases [of env w u c sev "Some t" None "Some ts"])
    case (log_failed e w2)
    with log_reminder_event_reliable [OF assms(1)] show ?thesis
      by (metis fst_conv sum.distinct(1))
  next
    case (created w2)
    from created(1) log_reminder_event_accepted [OF assms(1)]
    have w2: "w2 = (snd ?ins)\<lparr>w_memlog := w_memlog (snd ?ins) @
        [reminder_document u (r_id (fst ?ins)) ''created'' (Some c)]\<rparr>"
      by simp
    show ?thesis
      unfolding created(2)
      by (simp add: w2 insert_reminder_result(2) publish_frame split: option.splits)
  qed
  then show
    "?create = (Inr (pending_row (new_rowid (w_rows w) (w_seq w)) u c sev (e_isoformat env t)
               (str_join '','' ts) (w_db_time w)), snd ?create)"
    "w_rows (snd ?create) = w_rows w @
       [pending_row (new_rowid (w_rows w) (w_seq w)) u c sev (e_isoformat env t)
          (str_join '','' ts) (w_db_time w)]"
    "w_seq (snd ?create) = new_rowid (w_rows w) (w_seq w)"
    "w_ticks (snd ?create) = w_ticks w"
    "w_db_time (snd ?create) = w_db_time w"
    unfolding row by simp_all
qed

lemma ids_below_seq_created:
  assumes "ids_below_seq w" and "w_rows w' = w_rows w @ [row]"
    and "r_id row = w_seq w + 1" and "w_seq w' = w_seq w + 1"
  shows "ids_below_seq w'"
  using assms by (auto simp: ids_below_seq_def list_all_iff)

lemma heat_macro_reliable:
  assumes "memory_reliable env" and "ids_below_seq w"
  shows
    "heat_macro env w user =
       (Inr \<lparr>m_message = heat_message,
              m_reminders = heat_rows env (w_db_time w) user (w_seq w + 1)
                              (e_clock env (w_ticks w))\<rparr>,
        snd (heat_macro env w user))"
    "w_rows (snd (heat_macro env w user)) = w_rows w @
       heat_rows env (w_db_time w) user (w_seq w + 1) (e_clock env (w_ticks w))"
    "w_seq (snd (heat_macro env w user)) = w_seq w + 2"
    "w_ticks (snd (heat_macro env w user)) = Suc (w_ticks w)"
    "w_db_time (snd (heat_macro env w user)) = w_db_time w"
    "ids_below_seq (snd (heat_macro env w user))"
proof -
  let ?now = "e_clock env (w_ticks w)"
  let ?w0 = "w\<lparr>w_ticks := Suc (w_ticks w)\<rparr>"
  let ?c1 = "create_reminder env ?w0 hydration_content user ''high'' (Some (?now + minutes 30))
    None (Some [''heat'', ''hydration''])"
  let ?c2 = "create_reminder env (snd ?c1) family_content user ''high'' (Some (?now + hours 1))
    None (Some [''family'', ''safety''])"
  have below0: "ids_below_seq ?w0"
    using assms(2) by (simp add: ids_below_seq_def)
  have next0: "new_rowid (w_rows ?w0) (w_seq ?w0) = w_seq w + 1"
    using new_rowid_next [OF below0] by simp
  note first = create_reminder_reliable [OF assms(1), of "[''heat'', ''hydration'']" ?w0
        hydration_content user "''high''" "?now + minutes 30", simplified next0, simplified]
  have below1: "ids_below_seq (snd ?c1)"
    using ids_below_seq_created [OF below0, of "snd ?c1"] first(2,3)
    by (simp add: pending_row_def)
  have next1: "new_rowid (w_rows (snd ?c1)) (w_seq (snd ?c1)) = w_seq w + 2"
    using new_rowid_next [OF below1] first(3) by simp
  note second = create_reminder_reliable [OF assms(1), of "[''family'', ''safety'']" "snd ?c1"
        family_content user "''high''" "?now + hours 1", simplified next1 first(4,5), simplified]
  have below2: "ids_below_seq (snd ?c2)"
    using ids_below_seq_created [OF below1, of "snd ?c2"] second(2,3) first(3)
    by (simp add: pending_row_def)
  have two: "w_seq w + 1 + 1 = w_seq w + 2"
    by simp
  have unfolded: "heat_macro env w user =
       (Inr \<lparr>m_message = heat_message,
              m_reminders = heat_rows env (w_db_time w) user (w_seq w + 1) ?now\<rparr>, snd ?c2)"
    unfolding heat_macro_def utcnow_def
    by (simp only: Let_def split_conv) (subst first(1), simp, subst second(1), simp add: heat_rows_def two)
  then have state: "snd (heat_macro env w user) = snd ?c2"
    by simp
  show "heat_macro env w user =
       (Inr \<lparr>m_message = heat_message,
              m_reminders = heat_rows env (w_db_time w) user (w_seq w + 1) ?now\<rparr>,
        snd (heat_macro env w user))"
    unfolding state by (rule unfolded)
  show "w_rows (snd (heat_macro env w user)) = w_rows w @
       heat_rows env (w_db_time w) user (w_seq w + 1) ?now"
    unfolding state by (simp add: second(2) first(2) heat_rows_def two)
  show "w_seq (snd (heat_macro env w user)) = w_seq w + 2"
    unfolding state by (rule second(3))
  show "w_ticks (snd (heat_macro env w user)) = Suc (w_ticks w)"
    unfolding state by (rule second(4))
  show "w_db_time (snd (heat_macro env w user)) = w_db_time w"
    unfolding state by (rule second(5))
  show "ids_below_seq (snd (heat_macro env w user))"
    unfolding state by (rule below2)
qed

lemma sleep_macro_reliable:
  assumes "memory_reliable env" and "ids_below_seq w"
  shows
    "sleep_macro env w user =
       (Inr \<lparr>m_message = sleep_message,
              m_reminders = sleep_rows env (w_db_time w) user (w_seq w + 1)
                              (e_clock env (w_ticks w))\<rparr>,
        snd (sleep_macro env w user))"
    "w_rows (snd (sleep_macro env w user)) = w_rows w @
       sleep_rows env (w_db_time w) user (w_seq w + 1) (e_clock env (w_ticks w))"
    "w_seq (snd (sleep_macro env w user)) = w_seq w + 2"
    "w_ticks (snd (sleep_macro env w user)) = Suc (w_ticks w)"
    "w_db_time (snd (sleep_macro env w user)) = w_db_time w"
    "ids_below_seq (snd (sleep_macro env w user))"
proof -
  let ?now = "e_clock env (w_ticks w)"
  let ?w0 = "w\<lparr>w_ticks := Suc (w_ticks w)\<rparr>"
  let ?c1 = "create_reminder env ?w0 wind_down_content user ''medium'' (Some (upcoming_2200 ?now))
    None (Some [''sleep'', ''routine''])"
  let ?c2 = "create_reminder env (snd ?c1) sleep_log_content user ''low'' (Some (?now + hours 12))
    None (Some [''sleep'', ''tracking''])"
  have below0: "ids_below_seq ?w0"
    using assms(2) by (simp add: ids_below_seq_def)
  have next0: "new_rowid (w_rows ?w0) (w_seq ?w0) = w_seq w + 1"
    using new_rowid_next [OF below0] by simp
  note first = create_reminder_reliable [OF assms(1), of "[''sleep'', ''routine'']" ?w0
        wind_down_content user "''medium''" "upcoming_2200 ?now", simplified next0, simplified]
  have below1: "ids_below_seq (snd ?c1)"
    using ids_below_seq_created [OF below0, of "snd ?c1"] first(2,3)
    by (simp add: pending_row_def)
  have next1: "new_rowid (w_rows (snd ?c1)) (w_seq (snd ?c1)) = w_seq w + 2"
    using new_rowid_next [OF below1] first(3) by simp
  note second = create_reminder_reliable [OF assms(1), of "[''sleep'', ''tracking'']" "snd ?c1"
        sleep_log_content user "''low''" "?now + hours 12", simplified next1 first(4,5), simplified]
  have below2: "ids_below_seq (snd ?c2)"
    using ids_below_seq_created [OF below1, of "snd ?c2"] second(2,3) first(3)
    by (simp add: pending_row_def)
  have two: "w_seq w + 1 + 1 = w_seq w + 2"
    by simp
  have unfolded: "sleep_macro env w user =
       (Inr \<lparr>m_message = sleep_message,
              m_reminders = sleep_rows env (w_db_time w) user (w_seq w + 1) ?now\<rparr>, snd ?c2)"
    unfolding sleep_macro_def utcnow_def upcoming_2200_def [symmetric]
    by (simp only: Let_def split_conv upcoming_2200_def [symmetric]) (subst first(1), simp, subst second(1), simp add: sleep_rows_def two)
  then have state: "snd (sleep_macro env w user) = snd ?c2"
    by simp
  show "sleep_macro env w user =
       (Inr \<lparr>m_message = sleep_message,
              m_reminders = sleep_rows env (w_db_time w) user (w_seq w + 1) ?now\<rparr>,
        snd (sleep_macro env w user))"
    unfolding state by (rule unfolded)
  show "w_rows (snd (sleep_macro env w user)) = w_rows w @
       sleep_rows env (w_db_time w) user (w_seq w + 1) ?now"
    unfolding state by (simp add: second(2) first(2) sleep_rows_def two)
  show "w_seq (snd (sleep_macro env w user)) = w_seq w + 2"
    unfolding state by (rule second(3))
  show "w_ticks (snd (sleep_macro env w user)) = Suc (w_ticks w)"
    unfolding state by (rule second(4))
  show "w_db_time (snd (sleep_macro env w user)) = w_db_time w"
    unfolding state by (rule second(5))
  show "ids_below_seq (snd (sleep_macro env w user))"
    unfolding state by (rule below2)
qed


lemma heat_test_iff:
  "heat_test st \<longleftrightarrow>
     (\<exists>t. s_temperature st = Some t \<and> t \<ge> 33) \<or> ''WHOT'' \<in> set (s_warnings st)"
  by (auto simp: heat_test_def split: option.splits)

lemma sleep_test_iff:
  "sleep_test st \<longleftrightarrow> (\<exists>s. s_sleep st = Some s \<and> s \<noteq> 0 \<and> s < 6)"
  by (auto simp: sleep_test_def split: option.splits)

lemma run_reliable:
  assumes "memory_reliable env" and "ids_below_seq w"
  shows "fst (run env w evaluation st) =
      Inr \<lparr>rr_route = ''macro'', rr_risk_level = ev_level evaluation,
            rr_message = run_message st,
            rr_reminder_ids = Some (map r_id (run_rows env w st)), rr_evidence = None\<rparr>"
    and "w_rows (snd (run env w evaluation st)) = w_rows w @ run_rows env w st"
proof -
  let ?user = "state_user_id st"
  let ?h = "snd (heat_macro env w ?user)"
  note heat = heat_macro_reliable [OF assms, of ?user]
  note sleep_after = sleep_macro_reliable [OF assms(1) heat(6), of ?user,
      unfolded heat(3,4,5)]
  note sleep_only = sleep_macro_reliable [OF assms, of ?user]
  have three: "w_seq w + 2 + 1 = w_seq w + 3"
    by simp
  have "fst (run env w evaluation st) =
      Inr \<lparr>rr_route = ''macro'', rr_risk_level = ev_level evaluation,
            rr_message = run_message st,
            rr_reminder_ids = Some (map r_id (run_rows env w st)), rr_evidence = None\<rparr> \<and>
    w_rows (snd (run env w evaluation st)) = w_rows w @ run_rows env w st"
  proof (cases "heat_test st")
    case True
    note fired = True
    show ?thesis
    proof (cases "sleep_test st")
      case True
      have "run env w evaluation st =
        (Inr \<lparr>rr_route = ''macro'', rr_risk_level = ev_level evaluation,
            rr_message = run_message st,
            rr_reminder_ids = Some (map r_id (run_rows env w st)), rr_evidence = None\<rparr>,
         snd (sleep_macro env ?h ?user))"
        unfolding run_def Let_def
        by (subst heat(1), simp add: fired True, subst sleep_after(1),
            simp add: run_message_def run_rows_def fired True three)
      then show ?thesis
        by (simp add: sleep_after(2) heat(2) run_rows_def fired True three)
    next
      case False
      have "run env w evaluation st =
        (Inr \<lparr>rr_route = ''macro'', rr_risk_level = ev_level evaluation,
            rr_message = run_message st,
            rr_reminder_ids = Some (map r_id (run_rows env w st)), rr_evidence = None\<rparr>, ?h)"
        unfolding run_def Let_def
        by (subst heat(1), simp add: fired False run_message_def run_rows_def)
      then show ?thesis
        by (simp add: heat(2) run_rows_def fired False)
    qed
  next
    case False
    note quiet = False
    show ?thesis
    proof (cases "sleep_test st")
      case True
      have "run env w evaluation st =
        (Inr \<lparr>rr_route = ''macro'', rr_risk_level = ev_level evaluation,
            rr_message = run_message st,
            rr_reminder_ids = Some (map r_id (run_rows env w st)), rr_evidence = None\<rparr>,
         snd (sleep_macro env w ?user))"
        unfolding run_def Let_def
        by (simp add: quiet True, subst sleep_only(1),
            simp add: run_message_def run_rows_def quiet True)
      then show ?thesis
        by (simp add: sleep_only(2) run_rows_def quiet True)
    next
      case False
      then show ?thesis
        by (simp add: run_def run_message_def run_rows_def quiet)
    qed
  qed
  then show "fst (run env w evaluation st) =
      Inr \<lparr>rr_route = ''macro'', rr_risk_level = ev_level evaluation,
            rr_message = run_message st,
            rr_reminder_ids = Some (map r_id (run_rows env w st)), rr_evidence = None\<rparr>"
    and "w_rows (snd (run env w evaluation st)) = w_rows w @ run_rows env w st"
    by simp_all
qed


text \<open>
  The high-risk demonstration state, in an empty store at the epoch: both macros fire, the
  four reminders get the ids 1 to 4 in heat-then-sleep order and are due 30 minutes, one
  hour, at 22:00 of the same day and 12 hours after the clock reading.
\<close>

lemma run_demo_high:
  "fst (run calm_env empty_world (evaluate demo_high_snapshot) demo_high_snapshot) =
     Inr \<lparr>rr_route = ''macro'', rr_risk_level = ''high'',
           rr_message = heat_message @ [CHR 0x0A] @ sleep_message,
           rr_reminder_ids = Some [1, 2, 3, 4], rr_evidence = None\<rparr> \<and>
   map r_due_time
     (w_rows (snd (run calm_env empty_world (evaluate demo_high_snapshot) demo_high_snapshot))) =
     [Some ''1970-01-01T00:30:00'', Some ''1970-01-01T01:00:00'',
      Some ''1970-01-01T22:00:00'', Some ''1970-01-01T12:00:00''] \<and>
   map r_severity
     (w_rows (snd (run calm_env empty_world (evaluate demo_high_snapshot) demo_high_snapshot))) =
     [''high'', ''high'', ''medium'', ''low'']"
proof -
  have reliable: "memory_reliable calm_env"
    by (simp add: memory_reliable_def calm_env_def)
  have below: "ids_below_seq empty_world"
    by (simp add: ids_below_seq_def empty_world_def)
  have tests: "heat_test demo_high_snapshot" "sleep_test demo_high_snapshot"
    by (simp_all add: heat_test_def sleep_test_def demo_high_snapshot_def blank_snapshot_def)
  have high: "ev_level (evaluate demo_high_snapshot) = ''high''"
    by (simp add: evaluate_def demo_high_snapshot_def blank_snapshot_def)
  have rows: "run_rows calm_env empty_world demo_high_snapshot =
      heat_rows calm_env ''1970-01-01 00:00:00'' ''user_001'' 1 0 @
      sleep_rows calm_env ''1970-01-01 00:00:00'' ''user_001'' 3 0"
  proof -
    have clock: "e_clock calm_env n = 0" for n
      by (simp add: calm_env_def)
    have user: "state_user_id demo_high_snapshot = ''user_001''"
      by (simp add: state_user_id_def demo_high_snapshot_def blank_snapshot_def)
    have world: "w_db_time empty_world = ''1970-01-01 00:00:00''" "w_seq empty_world = 0"
      by (simp_all add: empty_world_def)
    show ?thesis
      unfolding run_rows_def by (simp only: tests if_True clock user world) simp
  qed
  have due: "map r_due_time (run_rows calm_env empty_world demo_high_snapshot) =
     [Some ''1970-01-01T00:30:00'', Some ''1970-01-01T01:00:00'',
      Some ''1970-01-01T22:00:00'', Some ''1970-01-01T12:00:00'']"
    unfolding rows
    by (simp add: heat_rows_def sleep_rows_def pending_row_def calm_env_def isoformat_1970_def
        two_digits_def minutes_def hours_def days_def upcoming_2200_def replace_2200_def)
  have ids: "map r_id (run_rows calm_env empty_world demo_high_snapshot) = [1, 2, 3, 4]"
    unfolding rows by (simp add: heat_rows_def sleep_rows_def pending_row_def)
  have severities: "map r_severity (run_rows calm_env empty_world demo_high_snapshot) =
      [''high'', ''high'', ''medium'', ''low'']"
    unfolding rows by (simp add: heat_rows_def sleep_rows_def pending_row_def)
  have empty: "w_rows empty_world = []"
    by (simp add: empty_world_def)
  show ?thesis
    unfolding run_reliable [OF reliable below]
    by (simp add: run_message_def tests high ids due severities empty)
qed

text \<open>
  C2. The claim lets the sleep macro fire exactly when \<^verbatim>\<open>sleep < 6\<close>. The code does not
  fire it for a sleep reading of zero: at level \<^verbatim>\<open>high\<close>, with a sleep of 0 hours, \<open>run\<close>
  returns the generic caution message and creates no reminder.
\<close>

theorem run_skips_zero_sleep:
  "s_sleep sleepless_snapshot = Some 0 \<and>
   ev_level (evaluate sleepless_snapshot) = ''high'' \<and>
   run env w (evaluate sleepless_snapshot) sleepless_snapshot =
    (Inr \<lparr>rr_route = ''macro'', rr_risk_level = ''high'',
           rr_message = generic_caution_message, rr_reminder_ids = Some [],
           rr_evidence = None\<rparr>, w)"
proof -
  have high: "ev_level (evaluate sleepless_snapshot) = ''high''"
    by (simp add: evaluate_def sleepless_snapshot_def humid_storm_snapshot_def
        blank_snapshot_def)
  have "\<not> heat_test sleepless_snapshot" "\<not> sleep_test sleepless_snapshot"
    by (simp_all add: heat_test_def sleep_test_def sleepless_snapshot_def
        humid_storm_snapshot_def blank_snapshot_def)
  then have "run env w (evaluate sleepless_snapshot) sleepless_snapshot =
    (Inr \<lparr>rr_route = ''macro'', rr_risk_level = ''high'',
           rr_message = generic_caution_message, rr_reminder_ids = Some [],
           rr_evidence = None\<rparr>, w)"
    by (simp add: run_def high)
  with high show ?thesis
    by (simp add: sleepless_snapshot_def)
qed

subsection \<open>C3: no macro fires\<close>

text \<open>
  C3. When the temperature is absent or below 33, \<^verbatim>\<open>WHOT\<close> is not among the warnings and
  the sleep reading is absent or at least 6, \<open>run\<close> returns route \<^verbatim>\<open>macro\<close> with the
  generic caution message alone and an empty list of reminder ids, and leaves the state
  as it was: no reminder is created, nothing is logged or published. The risk level is
  passed through, so this also happens at level \<^verbatim>\<open>high\<close>.
\<close>

theorem run_without_macro:
  assumes "\<forall>t. s_temperature st = Some t \<longrightarrow> t < 33"
    and "''WHOT'' \<notin> set (s_warnings st)"
    and "\<forall>s. s_sleep st = Some s \<longrightarrow> 6 \<le> s"
  shows "run env w evaluation st =
    (Inr \<lparr>rr_route = ''macro'', rr_risk_level = ev_level evaluation,
           rr_message = generic_caution_message, rr_reminder_ids = Some [],
           rr_evidence = None\<rparr>, w)"
proof -
  have "\<not> heat_test st"
    using assms(1,2) by (auto simp: heat_test_def split: option.splits)
  moreover have "\<not> sleep_test st"
    using assms(3) by (auto simp: sleep_test_def split: option.splits)
  ultimately show ?thesis
    by (simp add: run_def)
qed

text \<open>
  Humidity 95, the rainstorm warning and a heart rate of 120 give level \<^verbatim>\<open>high\<close> and no
  macro.
\<close>

theorem run_without_macro_witness:
  "s_temperature humid_storm_snapshot = None \<and>
   s_warnings humid_storm_snapshot = [''WRAINB''] \<and>
   s_sleep humid_storm_snapshot = None \<and>
   ev_level (evaluate humid_storm_snapshot) = ''high'' \<and>
   run calm_env demo_world (evaluate humid_storm_snapshot) humid_storm_snapshot =
    (Inr \<lparr>rr_route = ''macro'', rr_risk_level = ''high'',
           rr_message = generic_caution_message, rr_reminder_ids = Some [],
           rr_evidence = None\<rparr>, demo_world)"
proof -
  have cool: "\<forall>t. s_temperature humid_storm_snapshot = Some t \<longrightarrow> t < 33"
    by (simp add: humid_storm_snapshot_def blank_snapshot_def)
  have no_whot: "''WHOT'' \<notin> set (s_warnings humid_storm_snapshot)"
    by (simp add: humid_storm_snapshot_def blank_snapshot_def)
  have rested: "\<forall>s. s_sleep humid_storm_snapshot = Some s \<longrightarrow> 6 \<le> s"
    by (simp add: humid_storm_snapshot_def blank_snapshot_def)
  have high: "ev_level (evaluate humid_storm_snapshot) = ''high''"
    by (simp add: evaluate_def humid_storm_snapshot_def blank_snapshot_def)
  have fields: "s_temperature humid_storm_snapshot = None"
    "s_warnings humid_storm_snapshot = [''WRAINB'']" "s_sleep humid_storm_snapshot = None"
    by (simp_all add: humid_storm_snapshot_def blank_snapshot_def)
  from run_without_macro [OF cool no_whot rested,
      of calm_env demo_world "evaluate humid_storm_snapshot"] fields high
  show ?thesis by simp
qed

subsection \<open>C4: the sweep of due reminders\<close>




subsection \<open>C5: a message of the own origin\<close>

text \<open>
  C5. A received JSON object whose \<^verbatim>\<open>source\<close> is the local origin identity is discarded:
  \<open>on_message\<close> returns with the state it was given, whatever else the message holds.
\<close>

theorem on_message_ignores_own_source:
  assumes "sp_source payload = Some source_id"
  shows "on_message source_id env w (JsonObject payload) = (Inr (), w)"
  using assms by (simp add: on_message_def)

theorem on_message_ignores_own_source_witness:
  "sp_source \<lparr>sp_source = Some ''hub'', sp_event = Some ''completed'',
              sp_reminder = Some \<lparr>rf_id = Some 1, rf_status = Some ''completed'',
                                  rf_user_id = Some ''user_001''\<rparr>\<rparr> = Some ''hub'' \<and>
   on_message ''hub'' calm_env demo_world (completed_message ''hub'') = (Inr (), demo_world)"
proof -
  let ?p = "\<lparr>sp_source = Some ''hub'', sp_event = Some ''completed'',
              sp_reminder = Some \<lparr>rf_id = Some 1, rf_status = Some ''completed'',
                                  rf_user_id = Some ''user_001''\<rparr>\<rparr>"
  have own: "sp_source ?p = Some ''hub''"
    by simp
  from on_message_ignores_own_source [OF own, of calm_env demo_world] own
  show ?thesis by (simp add: completed_message_def)
qed

subsection \<open>C6: applying a remote event publishes nothing\<close>

text \<open>What \<open>on_message\<close> does with a JSON object.\<close>

lemma on_message_object:
  "on_message source_id env w (JsonObject payload) =
    (if sp_source payload = Some source_id then (Inr (), w)
     else case sp_event payload of
        None \<Rightarrow> (Inr (), w)
      | Some ev \<Rightarrow>
          (case rf_id (reminder_or_empty payload) of
             None \<Rightarrow> (Inr (), w)
           | Some i \<Rightarrow>
               if ev \<in> {''completed'', ''ignored'', ''pending'', ''triggered''} \<and> i \<noteq> 0
               then (Inr (),
                     snd (update_status env w i
                            (case rf_status (reminder_or_empty payload) of
                               None \<Rightarrow> ev
                             | Some s \<Rightarrow> if s = [] then ev else s)
                            None
                            (case rf_user_id (reminder_or_empty payload) of
                               None \<Rightarrow> DEFAULT_USER_ID
                             | Some u \<Rightarrow> if u = [] then DEFAULT_USER_ID else u)
                            False))
               else (Inr (), w)))"
  unfolding on_message_def Let_def text_or_def
  by (simp split: option.splits)

lemma on_message_outbox:
  "w_outbox (snd (on_message source_id env w msg)) = w_outbox w"
proof (cases msg)
  case NotJson
  then show ?thesis by (simp add: on_message_def)
next
  case JsonOther
  then show ?thesis by (simp add: on_message_def)
next
  case (JsonObject payload)
  show ?thesis
    unfolding JsonObject on_message_object
    by (simp add: update_status_outbox split: option.splits)
qed

text \<open>
  C6. A JSON object of another origin whose event is one of \<^verbatim>\<open>completed\<close>,
  \<^verbatim>\<open>ignored\<close>, \<^verbatim>\<open>pending\<close>, \<^verbatim>\<open>triggered\<close> and whose reminder carries an id other than
  zero is applied by \<open>update_status\<close> with \<^verbatim>\<open>propagate_mqtt=False\<close>, the status being the
  reminder's \<^verbatim>\<open>status\<close> if it has one and the event otherwise. Whatever the message
  \<open>msg\<close> is, accepted or not, the list of messages handed to the channel is the same
  after \<open>on_message\<close> as before.
\<close>

theorem on_message_applies_without_publish:
  assumes "sp_source payload \<noteq> Some source_id"
    and "sp_event payload = Some ev"
    and "ev \<in> {''completed'', ''ignored'', ''pending'', ''triggered''}"
    and "sp_reminder payload = Some rfields"
    and "rf_id rfields = Some i" and "i \<noteq> 0"
  shows "on_message source_id env w (JsonObject payload) =
      (Inr (),
       snd (update_status env w i
              (case rf_status rfields of None \<Rightarrow> ev | Some s \<Rightarrow> if s = [] then ev else s)
              None
              (case rf_user_id rfields of
                 None \<Rightarrow> DEFAULT_USER_ID
               | Some u \<Rightarrow> if u = [] then DEFAULT_USER_ID else u)
              False)) \<and>
    w_outbox (snd (on_message source_id env w msg)) = w_outbox w"
proof -
  have "on_message source_id env w (JsonObject payload) =
      (Inr (),
       snd (update_status env w i
              (case rf_status rfields of None \<Rightarrow> ev | Some s \<Rightarrow> if s = [] then ev else s)
              None
              (case rf_user_id rfields of
                 None \<Rightarrow> DEFAULT_USER_ID
               | Some u \<Rightarrow> if u = [] then DEFAULT_USER_ID else u)
              False))"
    using assms by (simp add: on_message_object reminder_or_empty_def)
  then show ?thesis
    by (simp add: on_message_outbox)
qed

text \<open>
  The message of the watch that completes reminder 1 changes the row and leaves the
  channel alone.
\<close>

theorem on_message_applies_without_publish_witness:
  "w_outbox (snd (on_message ''hub'' calm_env demo_world (completed_message ''watch''))) =
     w_outbox demo_world \<and>
   on_message ''hub'' calm_env demo_world (completed_message ''watch'') =
     (Inr (), snd (update_status calm_env demo_world 1 ''completed'' None ''user_001'' False)) \<and>
   map r_status (w_rows (snd (on_message ''hub'' calm_env demo_world
     (completed_message ''watch'')))) = [''completed'', ''pending'', ''pending'', ''completed'']"
proof -
  let ?rfields = "\<lparr>rf_id = Some 1, rf_status = Some ''completed'', rf_user_id = Some ''user_001''\<rparr>"
  let ?payload = "\<lparr>sp_source = Some ''watch'', sp_event = Some ''completed'',
                   sp_reminder = Some ?rfields\<rparr>"
  have other: "sp_source ?payload \<noteq> Some ''hub''" by simp
  have event: "sp_event ?payload = Some ''completed''" by simp
  have known: "''completed'' \<in> {''completed'', ''ignored'', ''pending'', ''triggered''}" by simp
  have has_fields: "sp_reminder ?payload = Some ?rfields" by simp
  have ident: "rf_id ?rfields = Some 1" by simp
  have nonzero: "(1::int) \<noteq> 0" by simp
  note applied = on_message_applies_without_publish
    [OF other event known has_fields ident nonzero, of calm_env demo_world
      "completed_message ''watch''"]
  have rows: "map r_status (w_rows (snd (update_status calm_env demo_world 1 ''completed'' None
      ''user_001'' False))) = [''completed'', ''pending'', ''pending'', ''completed'']"
    by (simp add: update_status_rows set_status_where_id_def demo_world_def empty_world_def
        demo_reminder_def)
  have applied_to: "on_message ''hub'' calm_env demo_world (completed_message ''watch'') =
      (Inr (), snd (update_status calm_env demo_world 1 ''completed'' None ''user_001'' False))"
    using applied [THEN conjunct1] by (simp add: completed_message_def)
  have silent: "w_outbox (snd (on_message ''hub'' calm_env demo_world
      (completed_message ''watch''))) = w_outbox demo_world"
    using applied [THEN conjunct2] by (simp add: completed_message_def)
  have changed: "map r_status (w_rows (snd (on_message ''hub'' calm_env demo_world
      (completed_message ''watch'')))) = [''completed'', ''pending'', ''pending'', ''completed'']"
    unfolding applied_to using rows by simp
  from silent applied_to changed show ?thesis
    by blast
qed

subsection \<open>C7: the two log calls of the router\<close>

text \<open>
  C7, as the claim states it, fails: neither log call of \<open>route\<close> is guarded. With a
  vector store that rejects the routing results only, the template path has returned its
  result and \<open>route\<close> still ends with the exception of the second log call; with a store
  that rejects every document, \<open>route\<close> ends with the exception of the first.
\<close>

theorem route_log_failure_counterexample:
  "fst (dispatch late_fault_env
          (snd (add_event late_fault_env empty_world
                  (request_document DEFAULT_USER_ID (evaluate blank_snapshot))))
          (evaluate blank_snapshot) blank_snapshot) =
     Inr (run_template_path (evaluate blank_snapshot) blank_snapshot) \<and>
   fst (route late_fault_env empty_world blank_snapshot) =
     Inl (CollaboratorError ''Connection error.'') \<and>
   fst (route deaf_memory_env empty_world blank_snapshot) =
     Inl (CollaboratorError ''Connection error.'')"
proof -
  have low: "ev_level (evaluate blank_snapshot) = ''low''"
    by (simp add: evaluate_def blank_snapshot_def)
  have user: "state_user_id blank_snapshot = DEFAULT_USER_ID"
    by (simp add: state_user_id_def blank_snapshot_def)
  have dispatched: "dispatch env w (evaluate blank_snapshot) blank_snapshot =
      (Inr (run_template_path (evaluate blank_snapshot) blank_snapshot), w)" for env w
    by (simp add: dispatch_def low)
  have late: "fst (route late_fault_env empty_world blank_snapshot) =
      Inl (CollaboratorError ''Connection error.'')"
    by (simp add: route_def Let_def user dispatched add_event_result late_fault_env_def
        calm_env_def request_document_def result_document_def)
  have deaf: "fst (route deaf_memory_env empty_world blank_snapshot) =
      Inl (CollaboratorError ''Connection error.'')"
    by (simp add: route_def Let_def user add_event_result deaf_memory_env_def calm_env_def)
  from dispatched late deaf show ?thesis
    by simp
qed

text \<open>
  C7, amended. \<open>route\<close> hands a \<^verbatim>\<open>routing_request\<close> document to the memory before the
  dispatch and, when the dispatch has returned a result, a \<^verbatim>\<open>routing_result\<close> document
  after it, in this order. The result of the dispatch is returned when both log calls
  return; an exception of the first log call ends \<open>route\<close> before the dispatch, and an
  exception of the second ends it after the dispatch, in both cases with that exception
  in place of the result.
\<close>

theorem route_logs_around_dispatch:
  "(\<forall>e. e_mem_fault env (w_memlog w) (request_document (state_user_id st) (evaluate st)) = Some e
      \<longrightarrow> route env w st =
            (Inl e, w\<lparr>w_memlog := w_memlog w @
                        [request_document (state_user_id st) (evaluate st)]\<rparr>)) \<and>
   (e_mem_fault env (w_memlog w) (request_document (state_user_id st) (evaluate st)) = None
      \<longrightarrow>
      (\<forall>e w2. dispatch env
                 (w\<lparr>w_memlog := w_memlog w @
                      [request_document (state_user_id st) (evaluate st)]\<rparr>)
                 (evaluate st) st = (Inl e, w2)
          \<longrightarrow> route env w st = (Inl e, w2)) \<and>
      (\<forall>result w2. dispatch env
                 (w\<lparr>w_memlog := w_memlog w @
                      [request_document (state_user_id st) (evaluate st)]\<rparr>)
                 (evaluate st) st = (Inr result, w2)
          \<longrightarrow> route env w st =
                ((case e_mem_fault env (w_memlog w2)
                         (result_document (state_user_id st) result) of
                    Some e \<Rightarrow> Inl e
                  | None \<Rightarrow> Inr result),
                 w2\<lparr>w_memlog := w_memlog w2 @
                       [result_document (state_user_id st) result]\<rparr>)))"
  by (auto simp: route_def Let_def add_event_result split: option.splits)

text \<open>
  With the memory that accepts every document, the blank snapshot is routed to the
  template path and both documents are in the memory, in order; with the memory that
  rejects every document, the exception of the first log call comes back.
\<close>

theorem route_logs_around_dispatch_witness:
  "route calm_env empty_world blank_snapshot =
     (Inr (run_template_path (evaluate blank_snapshot) blank_snapshot),
      empty_world\<lparr>w_memlog :=
        [request_document DEFAULT_USER_ID (evaluate blank_snapshot),
         result_document DEFAULT_USER_ID
           (run_template_path (evaluate blank_snapshot) blank_snapshot)]\<rparr>) \<and>
   route deaf_memory_env empty_world blank_snapshot =
     (Inl (CollaboratorError ''Connection error.''),
      empty_world\<lparr>w_memlog := [request_document DEFAULT_USER_ID (evaluate blank_snapshot)]\<rparr>)"
proof -
  let ?request = "request_document DEFAULT_USER_ID (evaluate blank_snapshot)"
  let ?result = "run_template_path (evaluate blank_snapshot) blank_snapshot"
  have low: "ev_level (evaluate blank_snapshot) = ''low''"
    by (simp add: evaluate_def blank_snapshot_def)
  have user: "state_user_id blank_snapshot = DEFAULT_USER_ID"
    by (simp add: state_user_id_def blank_snapshot_def)
  have dispatched: "dispatch calm_env (empty_world\<lparr>w_memlog := w_memlog empty_world @ [?request]\<rparr>)
      (evaluate blank_snapshot) blank_snapshot =
      (Inr ?result, empty_world\<lparr>w_memlog := w_memlog empty_world @ [?request]\<rparr>)"
    by (simp add: dispatch_def low)
  have accepted: "e_mem_fault calm_env log d = None" for log d
    by (simp add: calm_env_def)
  have rejected: "e_mem_fault deaf_memory_env log d = Some (CollaboratorError ''Connection error.'')"
    for log d
    by (simp add: deaf_memory_env_def calm_env_def)
  have "route calm_env empty_world blank_snapshot =
     (Inr ?result, empty_world\<lparr>w_memlog := [?request, result_document DEFAULT_USER_ID ?result]\<rparr>)"
    using route_logs_around_dispatch [of calm_env empty_world blank_snapshot]
      dispatched accepted
    by (simp add: user empty_world_def)
  moreover have "route deaf_memory_env empty_world blank_snapshot =
     (Inl (CollaboratorError ''Connection error.''), empty_world\<lparr>w_memlog := [?request]\<rparr>)"
    using route_logs_around_dispatch [of deaf_memory_env empty_world blank_snapshot] rejected
    by (simp add: user empty_world_def)
  ultimately show ?thesis
    by simp
qed

subsection \<open>C8: the fallback of the advice path\<close>

lemma lstrip_codes_Nil: "lstrip_codes codes [] = []"
proof -
  have "find (\<lambda>p. p \<noteq> [] \<and> take (length p) [] = p) codes = None"
    by (auto simp: find_None_iff)
  then show ?thesis
    by (subst lstrip_codes.simps) simp
qed

text \<open>
  Stripping stops at a byte that occurs in none of the codes: what stands behind that
  byte is kept, and so is the byte.
\<close>

lemma lstrip_codes_stop:
  assumes "\<forall>p \<in> set codes. c \<notin> set p"
  shows "lstrip_codes codes (y @ c # z) = lstrip_codes codes y @ c # z"
  using assms
proof (induction codes y rule: lstrip_codes.induct)
  case (1 codes s)
  have same: "(p \<noteq> [] \<and> take (length p) (s @ c # z) = p) = (p \<noteq> [] \<and> take (length p) s = p)"
    if "p \<in> set codes" for p
  proof (cases "length p \<le> length s")
    case True
    then show ?thesis by simp
  next
    case False
    then have longer: "length s < length p"
      by simp
    have "take (length p) s \<noteq> p"
    proof
      assume "take (length p) s = p"
      then have "length (take (length p) s) = length p"
        by simp
      with longer show False
        by simp
    qed
    moreover have "take (length p) (s @ c # z) \<noteq> p"
    proof
      assume whole: "take (length p) (s @ c # z) = p"
      from longer obtain k where k: "length p - length s = Suc k"
        by (cases "length p - length s") simp_all
      have "take (length p) (s @ c # z) = s @ c # take k z"
        using longer k by simp
      with whole have "c \<in> set p"
        by (metis in_set_conv_decomp)
      with "1.prems" that show False
        by blast
    qed
    ultimately show ?thesis
      by simp
  qed
  have found: "find (\<lambda>p. p \<noteq> [] \<and> take (length p) (s @ c # z) = p) codes =
      find (\<lambda>p. p \<noteq> [] \<and> take (length p) s = p) codes"
    by (rule find_cong [OF refl]) (rule same)
  show ?case
  proof (cases "find (\<lambda>p. p \<noteq> [] \<and> take (length p) s = p) codes")
    case None
    have "lstrip_codes codes (s @ c # z) = s @ c # z"
      by (subst lstrip_codes.simps) (simp only: found None option.simps)
    moreover have "lstrip_codes codes s = s"
      by (subst lstrip_codes.simps) (simp add: None)
    ultimately show ?thesis
      by simp
  next
    case (Some p)
    then have "take (length p) s = p"
      by (auto simp: find_Some_iff)
    then have "length (take (length p) s) = length p"
      by simp
    then have shorter: "length p \<le> length s"
      by simp
    have dropped: "drop (length p) (s @ c # z) = drop (length p) s @ c # z"
      using shorter by simp
    have "lstrip_codes codes (s @ c # z) = lstrip_codes codes (drop (length p) s @ c # z)"
      by (subst lstrip_codes.simps) (simp only: found Some option.simps dropped)
    also have "\<dots> = lstrip_codes codes (drop (length p) s) @ c # z"
      using "1.IH" [OF Some "1.prems"] .
    also have "lstrip_codes codes (drop (length p) s) = lstrip_codes codes s"
      by (subst (2) lstrip_codes.simps) (simp add: Some)
    finally show ?thesis .
  qed
qed

text \<open>
  The fallback message begins with a character that is no white space and has a colon
  before its last space, so stripping keeps the fallback text up to the colon and can
  only shorten what follows it: the space and the text of the exception.
\<close>

lemma py_strip_fallback:
  "py_strip (fallback_prefix @ t) =
     fallback_text @ rstrip_codes whitespace_codes (CHR 0x20 # t)"
proof -
  let ?body = "butlast fallback_text"
  have head: "fallback_prefix @ t = [] @ CHR 0xE6 # (tl fallback_prefix @ t)"
    by (simp add: fallback_prefix_def)
  have no_head: "\<forall>p \<in> set whitespace_codes. CHR 0xE6 \<notin> set p"
    by (simp add: whitespace_codes_def)
  have front: "lstrip_codes whitespace_codes (fallback_prefix @ t) = fallback_prefix @ t"
    unfolding head lstrip_codes_stop [OF no_head] lstrip_codes_Nil ..
  have parts: "fallback_prefix = ?body @ [CHR 0x3A, CHR 0x20]" "fallback_text = ?body @ [CHR 0x3A]"
    by (simp_all add: fallback_text_def fallback_prefix_def)
  have reversed: "rev (fallback_prefix @ t) = rev (CHR 0x20 # t) @ CHR 0x3A # rev ?body"
    by (subst parts(1)) simp
  have no_colon: "\<forall>p \<in> set (map rev whitespace_codes). CHR 0x3A \<notin> set p"
    by (simp add: whitespace_codes_def)
  have "rstrip_codes whitespace_codes (fallback_prefix @ t) =
      rev (lstrip_codes (map rev whitespace_codes) (rev (CHR 0x20 # t)) @ CHR 0x3A # rev ?body)"
    unfolding rstrip_codes_def reversed lstrip_codes_stop [OF no_colon] ..
  also have "\<dots> = (?body @ [CHR 0x3A]) @ rstrip_codes whitespace_codes (CHR 0x20 # t)"
    by (simp add: rstrip_codes_def)
  finally show ?thesis
    unfolding py_strip_def front parts(2) [symmetric] .
qed

text \<open>
  C8. When retrieval has returned a context and the language model raises, the advice
  path returns normally: the route is \<^verbatim>\<open>rag\<close>, the message is the stripped fallback
  message, which is the fallback text up to its colon followed by a space and the text of
  the exception without the white space at its end, and the evidence is the payload that
  was handed to the model. The state is not changed.
\<close>

theorem rag_path_falls_back:
  assumes "e_retrieve env (w_memlog w) st (state_user_id st) = Inr context"
    and "e_llm env (build_payload st context) = Inl exc"
  shows "run_rag_path env w evaluation st =
    (Inr \<lparr>rr_route = ''rag'', rr_risk_level = ev_level evaluation,
           rr_message = py_strip (fallback_prefix @ error_text exc),
           rr_reminder_ids = None,
           rr_evidence = Some (RagEvidence (build_payload st context))\<rparr>, w) \<and>
    py_strip (fallback_prefix @ error_text exc) =
      fallback_text @ rstrip_codes whitespace_codes (CHR 0x20 # error_text exc)"
  using assms by (simp add: run_rag_path_def Let_def py_strip_fallback)

text \<open>
  A time-out whose text ends in a line feed: the message is the fallback text, a space
  and the text of the exception without the line feed.
\<close>

theorem rag_path_falls_back_witness:
  "e_retrieve calm_env (w_memlog demo_world) blank_snapshot (state_user_id blank_snapshot) =
     Inr \<lparr>knowledge_snippets = [], short_term_memory = [], user_profile = None\<rparr> \<and>
   e_llm calm_env (build_payload blank_snapshot
     \<lparr>knowledge_snippets = [], short_term_memory = [], user_profile = None\<rparr>) =
     Inl (CollaboratorError (''Request timed out.'' @ [CHR 0x0A])) \<and>
   run_rag_path calm_env demo_world (evaluate blank_snapshot) blank_snapshot =
    (Inr \<lparr>rr_route = ''rag'', rr_risk_level = ''low'',
           rr_message = fallback_prefix @ ''Request timed out.'',
           rr_reminder_ids = None,
           rr_evidence = Some (RagEvidence
             \<lparr>p_state = blank_snapshot, p_knowledge = none_text, p_short_term = none_text,
              p_profile = none_text\<rparr>)\<rparr>,
     demo_world)"
proof -
  let ?ctx = "\<lparr>knowledge_snippets = [], short_term_memory = [], user_profile = None\<rparr>"
  have found: "e_retrieve calm_env (w_memlog demo_world) blank_snapshot
      (state_user_id blank_snapshot) = Inr ?ctx"
    by (simp add: calm_env_def)
  have timeout: "e_llm calm_env (build_payload blank_snapshot ?ctx) =
      Inl (CollaboratorError (''Request timed out.'' @ [CHR 0x0A]))"
    by (simp add: calm_env_def)
  have low: "ev_level (evaluate blank_snapshot) = ''low''"
    by (simp add: evaluate_def blank_snapshot_def)
  have payload: "build_payload blank_snapshot ?ctx =
      \<lparr>p_state = blank_snapshot, p_knowledge = none_text, p_short_term = none_text,
       p_profile = none_text\<rparr>"
    by (simp add: build_payload_def or_none_text_def)
  have stripped: "rstrip_codes whitespace_codes (CHR 0x20 # ''Request timed out.'' @ [CHR 0x0A]) =
      '' Request timed out.''"
    by (simp add: rstrip_codes_def whitespace_codes_def lstrip_codes.simps)
  have joined: "fallback_text @ '' Request timed out.'' = fallback_prefix @ ''Request timed out.''"
    by (simp add: fallback_text_def fallback_prefix_def)
  note fallen = rag_path_falls_back [OF found timeout, of "evaluate blank_snapshot"]
  have message: "py_strip (fallback_prefix @ error_text
      (CollaboratorError (''Request timed out.'' @ [CHR 0x0A]))) =
      fallback_prefix @ ''Request timed out.''"
    using fallen [THEN conjunct2] stripped joined by simp
  from fallen [THEN conjunct1] found timeout show ?thesis
    unfolding message low payload by simp
qed

subsection \<open>C9: the set of statuses\<close>

lemma update_status_valid:
  assumes "valid_status s" and "statuses_valid w"
  shows "statuses_valid (snd (update_status env w i s n u p))"
  using assms set_status_where_id_valid [of s "w_rows w" i]
  by (simp add: statuses_valid_def update_status_rows)

lemma trigger_each_valid:
  "statuses_valid w \<Longrightarrow> statuses_valid (snd (trigger_each env w rs))"
proof (induction rs arbitrary: w)
  case Nil
  then show ?case by simp
next
  case (Cons x rs)
  let ?u = "update_status env w (r_id x) ''triggered'' None (r_user_id x) True"
  have "valid_status ''triggered''"
    by (simp add: valid_status_def)
  from update_status_valid [OF this Cons.prems]
  have valid1: "statuses_valid (snd ?u)" .
  show ?case
  proof (cases "fst ?u")
    case (Inl e)
    then have "trigger_each env w (x # rs) = (Inl e, snd ?u)"
      by (cases ?u) simp
    with valid1 show ?thesis by simp
  next
    case (Inr r)
    then have "trigger_each env w (x # rs) = trigger_each env (snd ?u) rs"
      by (cases ?u) simp
    with Cons.IH [OF valid1] show ?thesis by simp
  qed
qed

lemma trigger_due_valid:
  assumes "statuses_valid w"
  shows "statuses_valid (snd (trigger_due_reminders env w now))"
proof -
  obtain t w0 where start: "(case now of None \<Rightarrow> utcnow env w | Some t \<Rightarrow> (t, w)) = (t, w0)"
    by (cases "case now of None \<Rightarrow> utcnow env w | Some t \<Rightarrow> (t, w)")
  then have "w_rows w0 = w_rows w"
    by (cases now) (auto simp: utcnow_def)
  with assms have valid0: "statuses_valid w0"
    by (simp add: statuses_valid_def)
  let ?sel = "index_order (filter (is_due (e_isoformat env t)) (w_rows w0))"
  have "snd (trigger_due_reminders env w now) = snd (trigger_each env w0 ?sel)"
    unfolding trigger_due_reminders_def start
    by (cases "trigger_each env w0 ?sel"; cases "fst (trigger_each env w0 ?sel)") auto
  with trigger_each_valid [OF valid0] show ?thesis
    by simp
qed

lemma on_message_valid:
  assumes "statuses_valid w" and "message_status_known msg"
  shows "statuses_valid (snd (on_message source_id env w msg))"
proof (cases msg)
  case NotJson
  with assms(1) show ?thesis by (simp add: on_message_def)
next
  case JsonOther
  with assms(1) show ?thesis by (simp add: on_message_def)
next
  case (JsonObject payload)
  have known: "valid_status ev \<Longrightarrow>
      valid_status (case rf_status (reminder_or_empty payload) of
                      None \<Rightarrow> ev
                    | Some s \<Rightarrow> if s = [] then ev else s)" for ev
    using assms(2) unfolding JsonObject message_status_known_def
    by (auto split: option.splits)
  have event: "ev \<in> {''completed'', ''ignored'', ''pending'', ''triggered''} \<Longrightarrow>
      valid_status ev" for ev
    unfolding valid_status_def by blast
  show ?thesis
    unfolding JsonObject on_message_object
    using assms(1) known event
    by (simp add: update_status_valid split: option.splits)
qed

text \<open>
  C9, as the claim states it, fails: the synchroniser writes the \<^verbatim>\<open>status\<close> field of
  the remote reminder as it comes. The demo store holds known statuses only; after the
  message of the watch, reminder 1 has the status \<^verbatim>\<open>archived\<close>.
\<close>

theorem sync_writes_unknown_status_counterexample:
  "statuses_valid demo_world \<and>
   \<not> statuses_valid (snd (on_message ''hub'' calm_env demo_world archived_message)) \<and>
   map r_status (w_rows (snd (on_message ''hub'' calm_env demo_world archived_message))) =
     [''archived'', ''pending'', ''pending'', ''completed'']"
  by (simp add: statuses_valid_def valid_status_def archived_message_def on_message_object
      reminder_or_empty_def update_status_rows set_status_where_id_def demo_world_def
      empty_world_def demo_reminder_def)

text \<open>
  C9, amended. In a store whose statuses are all among \<^verbatim>\<open>pending\<close>, \<^verbatim>\<open>triggered\<close>,
  \<^verbatim>\<open>completed\<close>, \<^verbatim>\<open>ignored\<close>: \<open>create_reminder\<close> keeps them so and the reminder it returns
  is \<^verbatim>\<open>pending\<close>; \<open>trigger_due_reminders\<close> keeps them so; \<open>update_status\<close> keeps them so
  when the status it is given is one of the four; \<open>on_message\<close> keeps them so when the
  \<^verbatim>\<open>status\<close> field of the remote reminder is absent, empty or one of the four.
\<close>

theorem statuses_stay_valid:
  assumes "statuses_valid w"
  shows "statuses_valid (snd (create_reminder env w c u sev due rep tags)) \<and>
    (\<forall>r. fst (create_reminder env w c u sev due rep tags) = Inr r \<longrightarrow> r_status r = ''pending'') \<and>
    statuses_valid (snd (trigger_due_reminders env w now)) \<and>
    (valid_status s \<longrightarrow> statuses_valid (snd (update_status env w i s n u' p))) \<and>
    (message_status_known msg \<longrightarrow> statuses_valid (snd (on_message source_id env w msg)))"
proof -
  have "statuses_valid (snd (create_reminder env w c u sev due rep tags))"
    using assms
    by (simp add: statuses_valid_def create_reminder_rows insert_reminder_result(1)
        valid_status_def)
  moreover have "\<forall>r. fst (create_reminder env w c u sev due rep tags) = Inr r \<longrightarrow>
      r_status r = ''pending''"
    using create_reminder_returns_inserted [of env w c u sev due rep tags]
    by (auto simp: insert_reminder_result(1))
  moreover note trigger_due_valid [OF assms, of env now]
  moreover have "valid_status s \<longrightarrow> statuses_valid (snd (update_status env w i s n u' p))"
    using assms by (simp add: update_status_valid)
  moreover have "message_status_known msg \<longrightarrow>
      statuses_valid (snd (on_message source_id env w msg))"
    using assms by (simp add: on_message_valid)
  ultimately show ?thesis by blast
qed

theorem statuses_stay_valid_witness:
  "statuses_valid demo_world \<and>
   statuses_valid (snd (create_reminder calm_env demo_world ''drink water'' ''user_001'' ''low''
     None None None)) \<and>
   statuses_valid (snd (trigger_due_reminders calm_env demo_world (Some (hours 12)))) \<and>
   valid_status ''ignored'' \<and>
   statuses_valid (snd (update_status calm_env demo_world 2 ''ignored'' None ''user_001'' True)) \<and>
   message_status_known (completed_message ''watch'') \<and>
   statuses_valid (snd (on_message ''hub'' calm_env demo_world (completed_message ''watch'')))"
proof -
  have valid: "statuses_valid demo_world"
    by (simp add: statuses_valid_def valid_status_def demo_world_def empty_world_def
        demo_reminder_def)
  have ignored: "valid_status ''ignored''"
    by (simp add: valid_status_def)
  have known: "message_status_known (completed_message ''watch'')"
    by (simp add: message_status_known_def completed_message_def reminder_or_empty_def
        valid_status_def)
  note kept = statuses_stay_valid [OF valid, where env = calm_env and c = "''drink water''"
    and u = "''user_001''" and sev = "''low''" and due = None and rep = None and tags = None
    and now = "Some (hours 12)" and s = "''ignored''" and i = 2 and n = None
    and u' = "''user_001''" and p = True and msg = "completed_message ''watch''"
    and source_id = "''hub''"]
  from kept valid ignored known show ?thesis
    by blast
qed

subsection \<open>C10: the template path\<close>

text \<open>
  The message of the template path: the base sentence without warnings and the caution
  sentence with them, followed by the activity clause when the step count is present,
  not zero and below 3000. The evidence is the list of reasons.
\<close>

lemma run_template_path_result:
  "run_template_path evaluation st =
    \<lparr>rr_route = ''template'', rr_risk_level = ev_level evaluation,
     rr_message =
       (if s_warnings st = [] then template_base_message else template_caution_message) @
       (if \<exists>n. s_steps st = Some n \<and> n \<noteq> 0 \<and> n < 3000 then activity_clause else []),
     rr_reminder_ids = None,
     rr_evidence = Some (TemplateEvidence (ev_reasons evaluation))\<rparr>"
  by (simp add: run_template_path_def Let_def split: option.splits)

text \<open>
  C10. The claim appends the activity clause exactly when \<^verbatim>\<open>steps < 3000\<close>. The code
  leaves it out for a step count of zero: the message is then the base sentence alone.
\<close>

theorem run_template_path_skips_zero_steps:
  "rr_message (run_template_path evaluation (blank_snapshot\<lparr>s_steps := Some 0\<rparr>)) =
     template_base_message \<and>
   rr_message (run_template_path evaluation (blank_snapshot\<lparr>s_steps := Some 2500\<rparr>)) =
     template_base_message @ activity_clause \<and>
   template_base_message @ activity_clause \<noteq> template_base_message"
  by (simp add: run_template_path_def blank_snapshot_def activity_clause_def)

end
